theory Spec2Isabelle
  imports Main "HOL-Library.List_Lexorder"
begin

section \<open>Python values used by the scraper\<close>

text \<open>
  A Python \<open>str\<close> is a sequence of Unicode code points. With the lexicographic order on
  lists, \<open><\<close> on \<open>pystr\<close> is Python's comparison of two \<open>str\<close> values.
\<close>

type_synonym codepoint = nat
type_synonym pystr = "codepoint list"

definition py :: "string \<Rightarrow> pystr" where
  "py cs = map of_char cs"

definition euro :: pystr where
  "euro = [8364]"

text \<open>Python's \<open>a < b\<close> on \<open>str\<close>, written out: the first differing code point decides,
  and a proper prefix is smaller.\<close>

fun str_lt :: "pystr \<Rightarrow> pystr \<Rightarrow> bool" where
  "str_lt [] [] = False"
| "str_lt [] (y # ys) = True"
| "str_lt (x # xs) [] = False"
| "str_lt (x # xs) (y # ys) = (x < y \<or> (x = y \<and> str_lt xs ys))"

text \<open>\<open>sub in s\<close> on two \<open>str\<close> values.\<close>

fun startswith :: "pystr \<Rightarrow> pystr \<Rightarrow> bool" where
  "startswith s [] = True"
| "startswith [] (p # ps) = False"
| "startswith (c # cs) (p # ps) = (c = p \<and> startswith cs ps)"

fun str_in :: "pystr \<Rightarrow> pystr \<Rightarrow> bool" where
  "str_in sub [] = (sub = [])"
| "str_in sub (c # cs) = (startswith (c # cs) sub \<or> str_in sub cs)"

text \<open>\<open>str(n)\<close> of a natural number: its decimal digits.\<close>

function decimal :: "nat \<Rightarrow> pystr" where
  "decimal n = (if n < 10 then [48 + n] else decimal (n div 10) @ [48 + n mod 10])"
  by pat_completeness auto
termination
  by (relation "measure (\<lambda>n. n)") auto

declare decimal.simps [simp del]

text \<open>The exceptions (subclasses of \<open>Exception\<close>) that can occur. \<open>HTTPException\<close> is the
  one of the web framework, with a status and a detail.\<close>

datatype exn =
    RequestException pystr
  | IndexError
  | HTTPException nat pystr
  | OtherException pystr

subsection \<open>The parsed document\<close>

text \<open>
  \<open>BeautifulSoup(html, 'html.parser')\<close> yields a tree of tags, text nodes and
  comments; a tag has a name, a dictionary of attributes and children.
\<close>

datatype node =
    Tag pystr "(pystr \<times> pystr) list" "node list"
  | NavigableString pystr
  | Comment pystr

fun tag_name :: "node \<Rightarrow> pystr" where
  "tag_name (Tag n a cs) = n"
| "tag_name (NavigableString t) = []"
| "tag_name (Comment t) = []"

fun tag_attrs :: "node \<Rightarrow> (pystr \<times> pystr) list" where
  "tag_attrs (Tag n a cs) = a"
| "tag_attrs (NavigableString t) = []"
| "tag_attrs (Comment t) = []"

fun contents :: "node \<Rightarrow> node list" where
  "contents (Tag n a cs) = cs"
| "contents (NavigableString t) = []"
| "contents (Comment t) = []"

text \<open>\<open>tag.get(key, default)\<close>.\<close>

definition get :: "node \<Rightarrow> pystr \<Rightarrow> pystr \<Rightarrow> pystr" where
  "get el key dflt = (case map_of (tag_attrs el) key of None \<Rightarrow> dflt | Some v \<Rightarrow> v)"

definition has_attr :: "pystr \<Rightarrow> node \<Rightarrow> bool" where
  "has_attr key el = (map_of (tag_attrs el) key \<noteq> None)"

text \<open>The tags of a subtree in document order, the root first.\<close>

fun tags_of :: "node \<Rightarrow> node list" where
  "tags_of (NavigableString t) = []"
| "tags_of (Comment t) = []"
| "tags_of (Tag n a cs) = Tag n a cs # concat (map tags_of cs)"

text \<open>\<open>tag.descendants\<close> restricted to tags: the subtree without its root.\<close>

definition descendant_tags :: "node list \<Rightarrow> node list" where
  "descendant_tags nodes = concat (map tags_of nodes)"

text \<open>\<open>find_all(attrs={key: True})\<close>: every tag that carries the attribute.\<close>

definition find_all_attr :: "pystr \<Rightarrow> node list \<Rightarrow> node list" where
  "find_all_attr key doc = filter (has_attr key) (descendant_tags doc)"

text \<open>\<open>find_all(name)\<close> and \<open>find(name)\<close>.\<close>

definition find_all_name :: "pystr \<Rightarrow> node list \<Rightarrow> node list" where
  "find_all_name name doc = filter (\<lambda>t. tag_name t = name) (descendant_tags doc)"

definition find_name :: "pystr \<Rightarrow> node list \<Rightarrow> node option" where
  "find_name name doc = (case find_all_name name doc of [] \<Rightarrow> None | t # _ \<Rightarrow> Some t)"

subsection \<open>The Python runtime and the libraries\<close>

text \<open>
  What the scraper calls and does not define: the HTML parser, which may reject its input,
  and the Unicode tables behind \<open>str.strip\<close>, \<open>str.split\<close>, \<open>str.lower\<close>,
  \<open>str.isdigit\<close> and \<open>unicodedata\<close>, and \<open>str(e)\<close> of an exception.
\<close>

record runtime =
  bs4_parse :: "pystr \<Rightarrow> exn + node list"
  py_isspace :: "codepoint \<Rightarrow> bool"
  py_lower :: "pystr \<Rightarrow> pystr"
  py_isdigit :: "codepoint \<Rightarrow> bool"
  nfd :: "pystr \<Rightarrow> pystr"
  is_Mn :: "codepoint \<Rightarrow> bool"
  exn_str :: "exn \<Rightarrow> pystr"

definition lstrip_ws :: "runtime \<Rightarrow> pystr \<Rightarrow> pystr" where
  "lstrip_ws R s = dropWhile (py_isspace R) s"

definition strip :: "runtime \<Rightarrow> pystr \<Rightarrow> pystr" where
  "strip R s = rev (dropWhile (py_isspace R) (rev (lstrip_ws R s)))"

section \<open>scraper.py: IRRESLocationScraper\<close>

definition data_label :: pystr where
  "data_label = py ''data-label''"

definition excluded_labels :: "pystr set" where
  "excluded_labels = set (map py
     [''appartement'', ''huis'', ''grond'', ''contact'',
      ''droomwoning'', ''nieuwbouw'', ''verkocht'', ''verkopen'',
      ''te-koop'', ''aanbod'', ''rekrutering''])"

text \<open>\<open>normalize_text\<close>: NFD, then drop the combining marks.\<close>

definition normalize_text :: "runtime \<Rightarrow> pystr \<Rightarrow> pystr" where
  "normalize_text R text = filter (\<lambda>c. \<not> is_Mn R c) (nfd R text)"

text \<open>The body of the loop of \<open>parse_locations\<close>: one element, the set so far.\<close>

definition add_location :: "runtime \<Rightarrow> node \<Rightarrow> pystr set \<Rightarrow> pystr set" where
  "add_location R element locations_set =
     (let label = strip R (get element data_label [])
      in if label \<noteq> [] \<and>
            py_lower R label \<notin> excluded_labels \<and>
            \<not> str_in euro label \<and>
            \<not> list_ex (py_isdigit R) label
         then insert label locations_set
         else locations_set)"

text \<open>
  \<open>sorted(list(locations_set))\<close>: the order in which a Python set is listed is not
  specified; sorting a duplicate-free list by a linear order gives the same list for each.
\<close>

definition parse_locations :: "runtime \<Rightarrow> pystr \<Rightarrow> exn + pystr list" where
  "parse_locations R html =
     (case bs4_parse R html of
        Inl e \<Rightarrow> Inl e
      | Inr soup \<Rightarrow>
          let elements = find_all_attr data_label soup;
              locations_set = fold (add_location R) elements {}
          in Inr (sorted_list_of_set locations_set))"

text \<open>The instance record: \<open>self.timeout\<close> and \<open>self.locations\<close>.\<close>

record scraper =
  timeout :: nat
  locations :: "pystr list"

definition init_scraper :: "nat \<Rightarrow> scraper" where
  "init_scraper t = \<lparr>timeout = t, locations = []\<rparr>"

text \<open>What \<open>requests.get\<close> gives: an exception, or a response with a status, its reason
  phrase, the address and a text.\<close>

record http_reply =
  reply_status :: nat
  reply_reason :: pystr
  reply_url :: pystr
  reply_text :: pystr

text \<open>
  \<open>response.raise_for_status()\<close> of the library: for a status from 400 to 499 and from
  500 to 599 it raises an \<open>HTTPError\<close>, a \<open>RequestException\<close>, whose text names the
  status, the reason and the address.
\<close>

definition raise_for_status :: "http_reply \<Rightarrow> exn + unit" where
  "raise_for_status response =
     (if 400 \<le> reply_status response \<and> reply_status response < 500
      then Inl (RequestException
             (decimal (reply_status response) @ py '' Client Error: '' @
              reply_reason response @ py '' for url: '' @ reply_url response))
      else if 500 \<le> reply_status response \<and> reply_status response < 600
      then Inl (RequestException
             (decimal (reply_status response) @ py '' Server Error: '' @
              reply_reason response @ py '' for url: '' @ reply_url response))
      else Inr ())"

text \<open>
  The \<open>try\<close> block that both \<open>fetch_page\<close> methods share: \<open>requests.get\<close>, then
  \<open>raise_for_status\<close>, then \<open>response.text\<close>. Its argument is what \<open>requests.get\<close> did.
\<close>

definition fetch_try :: "exn + http_reply \<Rightarrow> exn + pystr" where
  "fetch_try requests_get =
     (case requests_get of
        Inl e \<Rightarrow> Inl e
      | Inr response \<Rightarrow>
          (case raise_for_status response of
             Inl e \<Rightarrow> Inl e
           | Inr _ \<Rightarrow> Inr (reply_text response)))"

text \<open>
  \<open>fetch_page\<close> of scraper.py: the handler logs a \<open>RequestException\<close> and raises it
  again; any other exception passes through.
\<close>

definition fetch_page :: "exn + http_reply \<Rightarrow> exn + pystr" where
  "fetch_page requests_get =
     (case fetch_try requests_get of
        Inl e \<Rightarrow> Inl e
      | Inr text \<Rightarrow> Inr text)"

text \<open>The dictionary that \<open>scrape\<close> returns; the key \<open>error\<close> is present on failure only.\<close>

record envelope =
  env_locations :: "pystr list"
  env_count :: nat
  env_status :: pystr
  env_error :: "pystr option"

text \<open>The \<open>try\<close> block of \<open>scrape\<close>, with the instance before and after.\<close>

definition scrape_try :: "runtime \<Rightarrow> scraper \<Rightarrow> exn + http_reply \<Rightarrow> (exn + envelope) \<times> scraper" where
  "scrape_try R self requests_get =
     (case fetch_page requests_get of
        Inl e \<Rightarrow> (Inl e, self)
      | Inr html \<Rightarrow>
          (case parse_locations R html of
             Inl e \<Rightarrow> (Inl e, self)
           | Inr locs \<Rightarrow>
               (Inr \<lparr>env_locations = locs, env_count = length locs,
                     env_status = py ''success'', env_error = None\<rparr>,
                self\<lparr>locations := locs\<rparr>)))"

text \<open>\<open>scrape\<close>: the \<open>try\<close> block under \<open>except Exception\<close>.\<close>

definition scrape :: "runtime \<Rightarrow> scraper \<Rightarrow> exn + http_reply \<Rightarrow> (exn + envelope) \<times> scraper" where
  "scrape R self requests_get =
     (case scrape_try R self requests_get of
        (Inl e, self') \<Rightarrow>
          (Inr \<lparr>env_locations = [], env_count = 0,
                env_status = py ''error'', env_error = Some (exn_str R e)\<rparr>, self')
      | (Inr result, self') \<Rightarrow> (Inr result, self'))"

definition get_locations :: "scraper \<Rightarrow> pystr list" where
  "get_locations self = locations self"

text \<open>\<open>get_irres_locations\<close>: a fresh instance, scraped once.\<close>

definition get_irres_locations :: "runtime \<Rightarrow> exn + http_reply \<Rightarrow> exn + envelope" where
  "get_irres_locations R requests_get = fst (scrape R (init_scraper 10) requests_get)"

text \<open>One instance scraped again and again, once per outcome of \<open>requests.get\<close>.\<close>

definition scrape_all :: "runtime \<Rightarrow> scraper \<Rightarrow> (exn + http_reply) list \<Rightarrow> scraper" where
  "scrape_all R self outcomes = fold (\<lambda>requests_get s. snd (scrape R s requests_get)) outcomes self"

section \<open>scraper.py: IRRESOfficeImagesScraper\<close>

text \<open>\<open>s.split()\<close>: the maximal runs of characters that are not white space.\<close>

fun split_from :: "(codepoint \<Rightarrow> bool) \<Rightarrow> pystr \<Rightarrow> pystr \<Rightarrow> pystr list" where
  "split_from sp word [] = (if word = [] then [] else [word])"
| "split_from sp word (c # cs) =
     (if sp c then (if word = [] then split_from sp [] cs else word # split_from sp [] cs)
      else split_from sp (word @ [c]) cs)"

definition split :: "runtime \<Rightarrow> pystr \<Rightarrow> pystr list" where
  "split R s = split_from (py_isspace R) [] s"

text \<open>\<open>s.lstrip('/')\<close>; the code point of \<open>/\<close> is 47.\<close>

definition lstrip_slash :: "pystr \<Rightarrow> pystr" where
  "lstrip_slash s = dropWhile (\<lambda>c. c = 47) s"

definition IrresLatemImage :: pystr where
  "IrresLatemImage = py ''IrresLatemImage''"

definition IrresDestelbergenImage :: pystr where
  "IrresDestelbergenImage = py ''IrresDestelbergenImage''"

definition site_origin :: pystr where
  "site_origin = py ''https://irres.be/''"

text \<open>
  The body of the loop of \<open>parse_office_images\<close> for one \<open>picture\<close>: the assignment
  \<open>images[key] = value\<close> it makes, none, or the \<open>IndexError\<close> of \<open>srcset.split()[0]\<close>.
\<close>

definition office_entry :: "runtime \<Rightarrow> node \<Rightarrow> exn + (pystr \<times> pystr) option" where
  "office_entry R picture =
     (case find_name (py ''img'') (contents picture) of
        None \<Rightarrow> Inr None
      | Some img \<Rightarrow>
          let srcset = get img (py ''srcset'') [];
              alt = py_lower R (get img (py ''alt'') [])
          in if srcset \<noteq> [] then
               (case split R srcset of
                  [] \<Rightarrow> Inl IndexError
                | first # _ \<Rightarrow>
                    let url = lstrip_slash first
                    in if str_in (py ''7723384'') url \<or> str_in (py ''kerstgevel'') url \<or>
                          str_in (py ''latem'') alt
                       then Inr (Some (IrresLatemImage, site_origin @ url))
                       else if str_in (py ''7723383'') url \<or> str_in (py ''destelbergen'') url
                       then Inr (Some (IrresDestelbergenImage, site_origin @ url))
                       else Inr None)
             else Inr None)"

fun office_loop :: "runtime \<Rightarrow> node list \<Rightarrow> (pystr \<rightharpoonup> pystr) \<Rightarrow> exn + (pystr \<rightharpoonup> pystr)" where
  "office_loop R [] images = Inr images"
| "office_loop R (picture # rest) images =
     (case office_entry R picture of
        Inl e \<Rightarrow> Inl e
      | Inr None \<Rightarrow> office_loop R rest images
      | Inr (Some (key, url)) \<Rightarrow> office_loop R rest (images(key \<mapsto> url)))"

definition parse_office_images :: "runtime \<Rightarrow> pystr \<Rightarrow> exn + (pystr \<rightharpoonup> pystr)" where
  "parse_office_images R html =
     (case bs4_parse R html of
        Inl e \<Rightarrow> Inl e
      | Inr soup \<Rightarrow> office_loop R (find_all_name (py ''picture'') soup) Map.empty)"

section \<open>api.py: the Flask route /api/locations\<close>

datatype payload =
    JsonLocations pystr pystr "pystr list" nat
  | JsonError pystr pystr pystr
  | CsvText pystr
  | JsonLabels "pystr list"
  | JsonDetail pystr

record response =
  status_code :: nat
  mimetype :: pystr
  payload :: payload

text \<open>\<open>sep.join(items)\<close>.\<close>

fun join :: "pystr \<Rightarrow> pystr list \<Rightarrow> pystr" where
  "join sep [] = []"
| "join sep [x] = x"
| "join sep (x # y # ys) = x @ sep @ join sep (y # ys)"

definition format_csv_response :: "pystr list \<Rightarrow> response" where
  "format_csv_response locs =
     \<lparr>status_code = 200, mimetype = py ''text/csv'',
      payload = CsvText ((py ''location'' @ [10]) @ join [10] locs)\<rparr>"

text \<open>
  The \<open>try\<close> block of the route: \<open>format\<close> is the query parameter if given, \<open>now\<close>
  the time stamp.
\<close>

definition api_get_locations_try ::
    "runtime \<Rightarrow> exn + http_reply \<Rightarrow> pystr option \<Rightarrow> pystr \<Rightarrow> exn + response" where
  "api_get_locations_try R requests_get format now =
     (case get_irres_locations R requests_get of
        Inl e \<Rightarrow> Inl e
      | Inr result \<Rightarrow>
          let output_format = py_lower R (case format of None \<Rightarrow> py ''json'' | Some f \<Rightarrow> f)
          in if output_format = py ''csv''
             then Inr (format_csv_response (env_locations result))
             else Inr \<lparr>status_code = 200, mimetype = py ''application/json'',
                       payload = JsonLocations (py ''success'') now (env_locations result)
                                   (length (env_locations result))\<rparr>)"

definition api_get_locations ::
    "runtime \<Rightarrow> exn + http_reply \<Rightarrow> pystr option \<Rightarrow> pystr \<Rightarrow> response" where
  "api_get_locations R requests_get format now =
     (case api_get_locations_try R requests_get format now of
        Inl e \<Rightarrow> \<lparr>status_code = 500, mimetype = py ''application/json'',
                  payload = JsonError (py ''error'') now (exn_str R e)\<rparr>
      | Inr resp \<Rightarrow> resp)"

section \<open>app.py: the FastAPI service\<close>

record location =
  loc_label :: pystr
  loc_value :: pystr
  loc_display_text :: pystr

text \<open>\<open>fetch_page\<close> of app.py: the handler prints a \<open>RequestException\<close> and returns
  \<open>None\<close>; any other exception passes through.\<close>

definition app_fetch_page :: "exn + http_reply \<Rightarrow> exn + pystr option" where
  "app_fetch_page requests_get =
     (case fetch_try requests_get of
        Inl (RequestException m) \<Rightarrow> Inr None
      | Inl e \<Rightarrow> Inl e
      | Inr text \<Rightarrow> Inr (Some text))"

text \<open>\<open>item.get_text(strip=True)\<close>: the stripped, non-empty strings below the tag, joined;
  comments are not among them.\<close>

fun strings_of :: "node \<Rightarrow> pystr list" where
  "strings_of (NavigableString t) = [t]"
| "strings_of (Comment t) = []"
| "strings_of (Tag n a cs) = concat (map strings_of cs)"

definition get_text_strip :: "runtime \<Rightarrow> node \<Rightarrow> pystr" where
  "get_text_strip R item = concat (filter (\<lambda>s. s \<noteq> []) (map (strip R) (strings_of item)))"

text \<open>
  \<open>soup.find('ul', class_=lambda x: x and 'search-values' in x)\<close>: the first \<open>ul\<close> one of
  whose classes contains the text; the text has no white space, so this is a test on the
  value of the attribute.
\<close>

definition find_location_ul :: "node list \<Rightarrow> node option" where
  "find_location_ul soup =
     (case filter (\<lambda>t. tag_name t = py ''ul'' \<and>
                        str_in (py ''search-values'') (get t (py ''class'') []))
             (descendant_tags soup) of
        [] \<Rightarrow> None
      | ul # _ \<Rightarrow> Some ul)"

definition location_data :: "runtime \<Rightarrow> node \<Rightarrow> location" where
  "location_data R item =
     \<lparr>loc_label = strip R (get item (py ''data-label'') []),
      loc_value = strip R (get item (py ''data-value'') []),
      loc_display_text = get_text_strip R item\<rparr>"

definition extract_locations :: "runtime \<Rightarrow> pystr \<Rightarrow> exn + location list" where
  "extract_locations R html_content =
     (case bs4_parse R html_content of
        Inl e \<Rightarrow> Inl e
      | Inr soup \<Rightarrow>
          (case find_location_ul soup of
             None \<Rightarrow> Inr []
           | Some location_ul \<Rightarrow>
               Inr (filter (\<lambda>d. loc_label d \<noteq> [] \<and> loc_value d \<noteq> [])
                      (map (location_data R) (find_all_name (py ''li'') (contents location_ul))))))"

text \<open>\<open>IrresLocationScraper.get_locations\<close> of app.py.\<close>

definition app_get_locations :: "runtime \<Rightarrow> exn + http_reply \<Rightarrow> exn + location list" where
  "app_get_locations R requests_get =
     (case app_fetch_page requests_get of
        Inl e \<Rightarrow> Inl e
      | Inr None \<Rightarrow> Inr []
      | Inr (Some html_content) \<Rightarrow>
          if html_content = [] then Inr [] else extract_locations R html_content)"

text \<open>The \<open>try\<close> block of \<open>get_location_labels\<close>, and the route with its handler.\<close>

definition get_location_labels_try :: "runtime \<Rightarrow> exn + http_reply \<Rightarrow> exn + pystr list" where
  "get_location_labels_try R requests_get =
     (case app_get_locations R requests_get of
        Inl e \<Rightarrow> Inl e
      | Inr locs \<Rightarrow>
          if locs = []
          then Inl (HTTPException 404 (py ''No locations found or error fetching data''))
          else Inr (map loc_label locs))"

definition get_location_labels :: "runtime \<Rightarrow> exn + http_reply \<Rightarrow> exn + pystr list" where
  "get_location_labels R requests_get =
     (case get_location_labels_try R requests_get of
        Inl e \<Rightarrow> Inl (HTTPException 500 (exn_str R e))
      | Inr labels \<Rightarrow> Inr labels)"

text \<open>
  What the framework sends for the outcome of a route: the status of a raised
  \<open>HTTPException\<close> with its detail, 500 for any other exception, 200 for a value.
\<close>

definition fastapi_response :: "exn + pystr list \<Rightarrow> response" where
  "fastapi_response outcome =
     (case outcome of
        Inl (HTTPException code detail) \<Rightarrow>
          \<lparr>status_code = code, mimetype = py ''application/json'', payload = JsonDetail detail\<rparr>
      | Inl e \<Rightarrow>
          \<lparr>status_code = 500, mimetype = py ''text/plain'',
           payload = JsonDetail (py ''Internal Server Error'')\<rparr>
      | Inr labels \<Rightarrow>
          \<lparr>status_code = 200, mimetype = py ''application/json'', payload = JsonLabels labels\<rparr>)"

section \<open>A runtime for ASCII text, and sample pages\<close>

text \<open>
  The Python functions on ASCII text: white space is tab, line feed, vertical tab, form
  feed, carriage return, the separators 28 to 31 and the space; \<open>lower\<close> maps A to Z; the
  digits are 0 to 9. The parser is a table from markup to its tree. \<open>str(e)\<close> is the
  message of the exception, and the status, a colon and the detail for an \<open>HTTPException\<close>.
\<close>

definition ascii_isspace :: "codepoint \<Rightarrow> bool" where
  "ascii_isspace c = ((9 \<le> c \<and> c \<le> 13) \<or> (28 \<le> c \<and> c \<le> 32))"

definition ascii_lower :: "pystr \<Rightarrow> pystr" where
  "ascii_lower s = map (\<lambda>c. if 65 \<le> c \<and> c \<le> 90 then c + 32 else c) s"

definition ascii_isdigit :: "codepoint \<Rightarrow> bool" where
  "ascii_isdigit c = (48 \<le> c \<and> c \<le> 57)"

fun message_of :: "exn \<Rightarrow> pystr" where
  "message_of (RequestException m) = m"
| "message_of IndexError = py ''list index out of range''"
| "message_of (HTTPException code detail) = decimal code @ py '': '' @ detail"
| "message_of (OtherException m) = m"

definition parser_table :: "(pystr \<times> node list) list \<Rightarrow> pystr \<Rightarrow> exn + node list" where
  "parser_table pages html =
     (case map_of pages html of
        None \<Rightarrow> Inl (OtherException (py ''unknown page''))
      | Some soup \<Rightarrow> Inr soup)"

definition ascii_runtime :: "(pystr \<times> node list) list \<Rightarrow> runtime" where
  "ascii_runtime pages =
     \<lparr>bs4_parse = parser_table pages, py_isspace = ascii_isspace, py_lower = ascii_lower,
      py_isdigit = ascii_isdigit, nfd = (\<lambda>s. s), is_Mn = (\<lambda>c. 768 \<le> c \<and> c \<le> 879),
      exn_str = message_of\<rparr>"

text \<open>
  The same runtime with two tables extended to the characters of the samples beyond
  ASCII. Below 256, \<open>str.isdigit\<close> holds for 0 to 9 and for the superscripts two, three
  and one (178, 179, 185), which are digits and not decimal digits: \<open>str.isdecimal\<close>
  holds for 0 to 9 only. NFD splits the letter e with acute (233) into e and the combining
  acute accent (769), a character of category Mn.
\<close>

definition latin1_isdigit :: "codepoint \<Rightarrow> bool" where
  "latin1_isdigit c = ((48 \<le> c \<and> c \<le> 57) \<or> c = 178 \<or> c = 179 \<or> c = 185)"

definition latin1_isdecimal :: "codepoint \<Rightarrow> bool" where
  "latin1_isdecimal c = (48 \<le> c \<and> c \<le> 57)"

definition latin1_nfd :: "pystr \<Rightarrow> pystr" where
  "latin1_nfd s = concat (map (\<lambda>c. if c = 233 then [101, 769] else [c]) s)"

definition latin1_runtime :: "(pystr \<times> node list) list \<Rightarrow> runtime" where
  "latin1_runtime pages =
     \<lparr>bs4_parse = parser_table pages, py_isspace = ascii_isspace, py_lower = ascii_lower,
      py_isdigit = latin1_isdigit, nfd = latin1_nfd, is_Mn = (\<lambda>c. 768 \<le> c \<and> c \<le> 879),
      exn_str = message_of\<rparr>"

text \<open>A listing page: labels with white space around them, repeated, in both cases, with
  an accent, excluded, with a digit, with the euro sign, empty and missing.\<close>

definition li :: "pystr \<Rightarrow> pystr \<Rightarrow> node" where
  "li label text = Tag (py ''li'') [(py ''data-label'', label)] [NavigableString text]"

definition listing_html :: pystr where
  \<open>listing_html = py (''<ul><li data-label=" Gent ">a</li><li data-label="Huis">b</li>'' @
     ''<li data-label="Aalst">c</li><li data-label="gent">d</li>'' @
     ''<li data-label="Gent">e</li><li data-label="G&eacute;nt">f</li>'' @
     ''<li data-label="B-9000">g</li><li data-label="&euro; 500">h</li>'' @
     ''<li data-label="">i</li><li>j</li></ul>'')\<close>

definition listing_soup :: "node list" where
  "listing_soup =
     [Tag (py ''ul'') []
        [li (py '' Gent '') (py ''a''), li (py ''Huis'') (py ''b''),
         li (py ''Aalst'') (py ''c''), li (py ''gent'') (py ''d''),
         li (py ''Gent'') (py ''e''), li [71, 233, 110, 116] (py ''f''),
         li (py ''B-9000'') (py ''g''), li (8364 # py '' 500'') (py ''h''),
         li [] (py ''i''), Tag (py ''li'') [] [NavigableString (py ''j'')]]]"

text \<open>A page without any label, and the empty page.\<close>

definition plain_html :: pystr where
  "plain_html = py ''<p>Geen aanbod</p>''"

definition plain_soup :: "node list" where
  "plain_soup = [Tag (py ''p'') [] [NavigableString (py ''Geen aanbod'')]]"

text \<open>A listing page whose one label ends in the superscript two.\<close>

definition superscript_html :: pystr where
  \<open>superscript_html = py ''<ul><li data-label="Gent&sup2;">a</li></ul>''\<close>

definition superscript_soup :: "node list" where
  "superscript_soup = [Tag (py ''ul'') [] [li (py ''Gent'' @ [178]) (py ''a'')]]"

text \<open>Contact pages: two pictures of the office in Destelbergen; a picture whose
  \<open>srcset\<close> is one space; a picture without \<open>srcset\<close>; the two pictures of the office
  in Destelbergen followed by a picture whose \<open>srcset\<close> is one space.\<close>

definition picture :: "(pystr \<times> pystr) list \<Rightarrow> node" where
  "picture img_attrs = Tag (py ''picture'') [] [Tag (py ''img'') img_attrs []]"

definition contact_html :: pystr where
  \<open>contact_html = py (''<picture><img srcset="/img/7723383-a.jpg 800w" alt="Office"></picture>'' @
     ''<picture><img srcset="/img/destelbergen-b.jpg 800w" alt="Office"></picture>'')\<close>

definition contact_soup :: "node list" where
  "contact_soup =
     [picture [(py ''srcset'', py ''/img/7723383-a.jpg 800w''), (py ''alt'', py ''Office'')],
      picture [(py ''srcset'', py ''/img/destelbergen-b.jpg 800w''), (py ''alt'', py ''Office'')]]"

definition blank_srcset_html :: pystr where
  \<open>blank_srcset_html = py ''<picture><img srcset=" " alt="Irres Latem"></picture>''\<close>

definition blank_srcset_soup :: "node list" where
  "blank_srcset_soup = [picture [(py ''srcset'', py '' ''), (py ''alt'', py ''Irres Latem'')]]"

definition no_srcset_html :: pystr where
  \<open>no_srcset_html = py ''<picture><img alt="Irres Latem"></picture>''\<close>

definition no_srcset_soup :: "node list" where
  "no_srcset_soup = [picture [(py ''alt'', py ''Irres Latem'')]]"

definition trailing_blank_html :: pystr where
  \<open>trailing_blank_html =
     py (''<picture><img srcset="/img/7723383-a.jpg 800w" alt="Office"></picture>'' @
     ''<picture><img srcset="/img/destelbergen-b.jpg 800w" alt="Office"></picture>'' @
     ''<picture><img srcset=" " alt="Logo"></picture>'')\<close>

definition trailing_blank_soup :: "node list" where
  "trailing_blank_soup =
     [picture [(py ''srcset'', py ''/img/7723383-a.jpg 800w''), (py ''alt'', py ''Office'')],
      picture [(py ''srcset'', py ''/img/destelbergen-b.jpg 800w''), (py ''alt'', py ''Office'')],
      picture [(py ''srcset'', py '' ''), (py ''alt'', py ''Logo'')]]"

text \<open>A page with the filter list that app.py looks for.\<close>

definition filter_html :: pystr where
  \<open>filter_html = py (''<ul class="filter search-values">'' @
     ''<li data-label=" Gent " data-value="gent">Gent</li>'' @
     ''<li data-label="Aalst" data-value="">Aalst</li>'' @
     ''<li data-label="Deinze" data-value="deinze"> Deinze </li></ul>'')\<close>

definition filter_soup :: "node list" where
  "filter_soup =
     [Tag (py ''ul'') [(py ''class'', py ''filter search-values'')]
        [Tag (py ''li'') [(py ''data-label'', py '' Gent ''), (py ''data-value'', py ''gent'')]
           [NavigableString (py ''Gent'')],
         Tag (py ''li'') [(py ''data-label'', py ''Aalst''), (py ''data-value'', [])]
           [NavigableString (py ''Aalst'')],
         Tag (py ''li'') [(py ''data-label'', py ''Deinze''), (py ''data-value'', py ''deinze'')]
           [NavigableString (py '' Deinze '')]]]"

text \<open>Outcomes of \<open>requests.get\<close>: a time-out, replies with a page, and the reply 503.\<close>

definition timed_out :: "exn + http_reply" where
  "timed_out = Inl (RequestException (py ''Read timed out''))"

definition ok_reply :: "pystr \<Rightarrow> exn + http_reply" where
  "ok_reply html =
     Inr \<lparr>reply_status = 200, reply_reason = py ''OK'',
          reply_url = py ''https://irres.be/te-koop'', reply_text = html\<rparr>"

definition unavailable :: "exn + http_reply" where
  "unavailable =
     Inr \<lparr>reply_status = 503, reply_reason = py ''Service Unavailable'',
          reply_url = py ''https://irres.be/te-koop'', reply_text = []\<rparr>"

section \<open>Strings and sets: auxiliary facts\<close>

lemma str_lt_iff_less: "str_lt a b \<longleftrightarrow> a < b"
  by (induction a b rule: str_lt.induct) auto

lemma str_in_single: "str_in [c] s \<longleftrightarrow> c \<in> set s"
  by (induction s) (auto simp: neq_Nil_conv)

lemma str_in_euro: "str_in euro label \<longleftrightarrow> 8364 \<in> set label"
  by (simp add: euro_def str_in_single)

lemma list_ex_isdigit: "list_ex (py_isdigit R) label \<longleftrightarrow> (\<exists>c \<in> set label. py_isdigit R c)"
  by (simp add: list_ex_iff)

lemma fold_add_location:
  "fold (add_location R) els S =
     S \<union> {label. (\<exists>el \<in> set els. label = strip R (get el data_label [])) \<and>
                  label \<noteq> [] \<and> py_lower R label \<notin> excluded_labels \<and>
                  \<not> str_in euro label \<and> \<not> list_ex (py_isdigit R) label}"
proof (induction els arbitrary: S)
  case Nil
  show ?case by simp
next
  case (Cons el els)
  show ?case
    unfolding fold_simps Cons.IH
    by (auto simp: add_location_def Let_def)
qed

lemma finite_fold_add_location:
  "finite S \<Longrightarrow> finite (fold (add_location R) els S)"
  by (induction els arbitrary: S) (auto simp: add_location_def Let_def)

lemma parse_locations_Inr:
  "bs4_parse R html = Inr soup \<Longrightarrow>
   parse_locations R html =
     Inr (sorted_list_of_set (fold (add_location R) (find_all_attr data_label soup) {}))"
  by (simp add: parse_locations_def)

lemma set_parse_locations:
  assumes "bs4_parse R html = Inr soup" and "parse_locations R html = Inr locs"
  shows "set locs = fold (add_location R) (find_all_attr data_label soup) {}"
proof -
  have "finite (fold (add_location R) (find_all_attr data_label soup) {})"
    by (rule finite_fold_add_location) simp
  with assms show ?thesis
    by (auto simp: parse_locations_Inr)
qed

lemma sort_listing:
  fixes S :: "pystr set"
  assumes "distinct listing" "set listing = S"
  shows "sort listing = sorted_list_of_set S"
proof -
  have "sorted_list_of_set (set listing) = sort (remdups listing)"
    by (rule sorted_list_of_set_sort_remdups)
  with assms show ?thesis by (simp add: distinct_remdups_id)
qed

text \<open>The result as a computation on lists, for evaluating sample pages.\<close>

lemma parse_locations_sort_remdups:
  assumes "bs4_parse R html = Inr soup"
  shows "parse_locations R html =
     Inr (sort (remdups (filter
            (\<lambda>label. label \<noteq> [] \<and> py_lower R label \<notin> excluded_labels \<and>
                      \<not> str_in euro label \<and> \<not> list_ex (py_isdigit R) label)
            (map (\<lambda>el. strip R (get el data_label [])) (find_all_attr data_label soup)))))"
proof -
  have "fold (add_location R) (find_all_attr data_label soup) {} =
        set (filter
            (\<lambda>label. label \<noteq> [] \<and> py_lower R label \<notin> excluded_labels \<and>
                      \<not> str_in euro label \<and> \<not> list_ex (py_isdigit R) label)
            (map (\<lambda>el. strip R (get el data_label [])) (find_all_attr data_label soup)))"
    unfolding fold_add_location by auto
  then show ?thesis
    by (simp only: parse_locations_def assms sum.case Let_def sorted_list_of_set_sort_remdups)
qed

lemma has_attr_iff: "has_attr key el \<longleftrightarrow> (\<exists>v. map_of (tag_attrs el) key = Some v)"
  by (simp add: has_attr_def)

lemma get_Some: "map_of (tag_attrs el) key = Some v \<Longrightarrow> get el key dflt = v"
  by (simp add: get_def)

lemma bs4_parse_single: "bs4_parse (ascii_runtime [(html, soup)]) html = Inr soup"
  by (simp add: ascii_runtime_def parser_table_def)

lemmas ascii_defs =
  ascii_runtime_def py_def data_label_def excluded_labels_def euro_def
  strip_def lstrip_ws_def get_def has_attr_def find_all_attr_def find_all_name_def
  find_name_def descendant_tags_def ascii_isspace_def ascii_lower_def ascii_isdigit_def

lemma listing_locations:
  "parse_locations (ascii_runtime [(listing_html, listing_soup)]) listing_html =
     Inr [py ''Aalst'', py ''Gent'', [71, 233, 110, 116], py ''gent'']"
  unfolding parse_locations_sort_remdups [OF bs4_parse_single]
  by (simp add: ascii_defs listing_soup_def li_def)

section \<open>The location extractor\<close>

text \<open>
  Claim C1. Whenever the parser accepts the markup, \<open>parse_locations\<close> returns a list
  without duplicates whose entries ascend strictly in Python's order on strings, the
  lexicographic order by code points. The list does not depend on the order in which the
  set of labels is listed: every duplicate-free listing of the set sorts to it.
\<close>

theorem parse_locations_sorted_unique:
  assumes "bs4_parse R html = Inr soup"
  shows "\<exists>locs. parse_locations R html = Inr locs \<and> distinct locs \<and> sorted_wrt str_lt locs \<and>
           (\<forall>listing. distinct listing \<and>
                set listing = fold (add_location R) (find_all_attr data_label soup) {} \<longrightarrow>
              sort listing = locs)"
proof -
  let ?S = "fold (add_location R) (find_all_attr data_label soup) {}"
  have "sorted_wrt (<) (sorted_list_of_set ?S)"
    by (rule strict_sorted_list_of_set)
  then have strict: "sorted_wrt str_lt (sorted_list_of_set ?S)"
    by (simp add: str_lt_iff_less [abs_def])
  have "distinct (sorted_list_of_set ?S)" by simp
  with strict parse_locations_Inr [OF assms] sort_listing show ?thesis
    by blast
qed

theorem parse_locations_sorted_unique_witness:
  "bs4_parse (ascii_runtime [(listing_html, listing_soup)]) listing_html = Inr listing_soup \<and>
   parse_locations (ascii_runtime [(listing_html, listing_soup)]) listing_html =
     Inr [py ''Aalst'', py ''Gent'', [71, 233, 110, 116], py ''gent''] \<and>
   distinct [py ''Aalst'', py ''Gent'', [71, 233, 110, 116], py ''gent''] \<and>
   sorted_wrt str_lt [py ''Aalst'', py ''Gent'', [71, 233, 110, 116], py ''gent''] \<and>
   sort [py ''gent'', [71, 233, 110, 116], py ''Aalst'', py ''Gent''] =
     [py ''Aalst'', py ''Gent'', [71, 233, 110, 116], py ''gent'']"
proof -
  let ?R = "ascii_runtime [(listing_html, listing_soup)]"
  let ?out = "[py ''Aalst'', py ''Gent'', [71, 233, 110, 116], py ''gent'']"
  let ?listing = "[py ''gent'', [71, 233, 110, 116], py ''Aalst'', py ''Gent'']"
  have parsed: "bs4_parse ?R listing_html = Inr listing_soup"
    by (rule bs4_parse_single)
  obtain locs where ret: "parse_locations ?R listing_html = Inr locs"
    and props: "distinct locs" "sorted_wrt str_lt locs"
    and any: "\<And>listing. distinct listing \<Longrightarrow>
        set listing = fold (add_location ?R) (find_all_attr data_label listing_soup) {} \<Longrightarrow>
        sort listing = locs"
    using parse_locations_sorted_unique [OF parsed] by blast
  from ret have locs: "locs = ?out"
    by (simp add: listing_locations)
  have "distinct ?listing"
    by (simp add: py_def)
  moreover have "set ?listing = fold (add_location ?R) (find_all_attr data_label listing_soup) {}"
    unfolding set_parse_locations [OF parsed listing_locations, symmetric] by auto
  ultimately have "sort ?listing = locs"
    by (rule any)
  with props parsed ret locs show ?thesis by blast
qed

text \<open>
  Claim C2, with the digit test as the code has it. For an element of the parsed page
  that carries the attribute \<open>data-label\<close>, the trimmed value of the attribute is in the
  output of \<open>parse_locations\<close> exactly when none of the four tests rejects it: it is
  empty; its lower-case form is one of the eleven excluded words; it contains the euro
  sign (code point 8364); it contains a character for which \<open>str.isdigit\<close> holds. So a
  label with a character of any class that \<open>str.isdigit\<close> covers, as it does the decimal
  digits, is not in the output.
\<close>

theorem parse_locations_filter:
  assumes "bs4_parse R html = Inr soup"
    and "element \<in> set (descendant_tags soup)"
    and "map_of (tag_attrs element) (py ''data-label'') = Some v"
    and "label = strip R v"
  shows "\<exists>locs. parse_locations R html = Inr locs \<and>
           (label \<in> set locs \<longleftrightarrow>
              \<not> (label = [] \<or>
                 py_lower R label \<in> {py ''appartement'', py ''huis'', py ''grond'', py ''contact'',
                     py ''droomwoning'', py ''nieuwbouw'', py ''verkocht'', py ''verkopen'',
                     py ''te-koop'', py ''aanbod'', py ''rekrutering''} \<or>
                 8364 \<in> set label \<or>
                 (\<exists>c \<in> set label. py_isdigit R c))) \<and>
           (\<forall>decimal_digit.
              (\<forall>c. decimal_digit c \<longrightarrow> py_isdigit R c) \<and> list_ex decimal_digit label \<longrightarrow>
              label \<notin> set locs)"
proof -
  let ?S = "fold (add_location R) (find_all_attr data_label soup) {}"
  have ret: "parse_locations R html = Inr (sorted_list_of_set ?S)"
    by (rule parse_locations_Inr [OF assms(1)])
  have found: "element \<in> set (find_all_attr data_label soup)"
    using assms(2,3) by (simp add: find_all_attr_def has_attr_def data_label_def)
  have lab: "label = strip R (get element data_label [])"
    using assms(3,4) by (simp add: get_def data_label_def)
  have excl: "excluded_labels = {py ''appartement'', py ''huis'', py ''grond'', py ''contact'',
                     py ''droomwoning'', py ''nieuwbouw'', py ''verkocht'', py ''verkopen'',
                     py ''te-koop'', py ''aanbod'', py ''rekrutering''}"
    by (simp add: excluded_labels_def)
  have "label \<in> ?S \<longleftrightarrow>
          label \<noteq> [] \<and> py_lower R label \<notin> excluded_labels \<and>
          \<not> str_in euro label \<and> \<not> list_ex (py_isdigit R) label"
    unfolding fold_add_location using found lab by blast
  then have iff: "label \<in> set (sorted_list_of_set ?S) \<longleftrightarrow>
          \<not> (label = [] \<or> py_lower R label \<in> excluded_labels \<or>
             8364 \<in> set label \<or> (\<exists>c \<in> set label. py_isdigit R c))"
    using set_parse_locations [OF assms(1) ret]
    by (simp only: str_in_euro list_ex_isdigit) blast
  have dec: "label \<notin> set (sorted_list_of_set ?S)"
    if "(\<forall>c. decimal_digit c \<longrightarrow> py_isdigit R c) \<and> list_ex decimal_digit label"
    for decimal_digit
  proof -
    from that obtain c where "c \<in> set label" "py_isdigit R c"
      by (auto simp: list_ex_iff)
    with iff show ?thesis by blast
  qed
  from ret iff dec show ?thesis
    unfolding excl by blast
qed

lemma listing_tags:
  "descendant_tags listing_soup =
     [Tag (py ''ul'') []
        [li (py '' Gent '') (py ''a''), li (py ''Huis'') (py ''b''),
         li (py ''Aalst'') (py ''c''), li (py ''gent'') (py ''d''),
         li (py ''Gent'') (py ''e''), li [71, 233, 110, 116] (py ''f''),
         li (py ''B-9000'') (py ''g''), li (8364 # py '' 500'') (py ''h''),
         li [] (py ''i''), Tag (py ''li'') [] [NavigableString (py ''j'')]],
      li (py '' Gent '') (py ''a''), li (py ''Huis'') (py ''b''),
      li (py ''Aalst'') (py ''c''), li (py ''gent'') (py ''d''),
      li (py ''Gent'') (py ''e''), li [71, 233, 110, 116] (py ''f''),
      li (py ''B-9000'') (py ''g''), li (8364 # py '' 500'') (py ''h''),
      li [] (py ''i''), Tag (py ''li'') [] [NavigableString (py ''j'')]]"
  by (simp add: descendant_tags_def listing_soup_def li_def)

theorem parse_locations_filter_witness:
  "bs4_parse (ascii_runtime [(listing_html, listing_soup)]) listing_html = Inr listing_soup \<and>
   li (py '' Gent '') (py ''a'') \<in> set (descendant_tags listing_soup) \<and>
   li (py ''Huis'') (py ''b'') \<in> set (descendant_tags listing_soup) \<and>
   li (py ''B-9000'') (py ''g'') \<in> set (descendant_tags listing_soup) \<and>
   map_of (tag_attrs (li (py '' Gent '') (py ''a''))) (py ''data-label'') = Some (py '' Gent '') \<and>
   map_of (tag_attrs (li (py ''Huis'') (py ''b''))) (py ''data-label'') = Some (py ''Huis'') \<and>
   map_of (tag_attrs (li (py ''B-9000'') (py ''g''))) (py ''data-label'') = Some (py ''B-9000'') \<and>
   strip (ascii_runtime [(listing_html, listing_soup)]) (py '' Gent '') = py ''Gent'' \<and>
   strip (ascii_runtime [(listing_html, listing_soup)]) (py ''Huis'') = py ''Huis'' \<and>
   strip (ascii_runtime [(listing_html, listing_soup)]) (py ''B-9000'') = py ''B-9000'' \<and>
   list_ex latin1_isdecimal (py ''B-9000'') \<and>
   (\<exists>locs. parse_locations (ascii_runtime [(listing_html, listing_soup)]) listing_html = Inr locs \<and>
      py ''Gent'' \<in> set locs \<and> py ''Huis'' \<notin> set locs \<and> py ''B-9000'' \<notin> set locs)"
proof -
  let ?R = "ascii_runtime [(listing_html, listing_soup)]"
  have parsed: "bs4_parse ?R listing_html = Inr listing_soup"
    by (rule bs4_parse_single)
  have el1: "li (py '' Gent '') (py ''a'') \<in> set (descendant_tags listing_soup)"
    and el2: "li (py ''Huis'') (py ''b'') \<in> set (descendant_tags listing_soup)"
    and el3: "li (py ''B-9000'') (py ''g'') \<in> set (descendant_tags listing_soup)"
    unfolding listing_tags by simp_all
  have at1: "map_of (tag_attrs (li (py '' Gent '') (py ''a''))) (py ''data-label'') = Some (py '' Gent '')"
    and at2: "map_of (tag_attrs (li (py ''Huis'') (py ''b''))) (py ''data-label'') = Some (py ''Huis'')"
    and at3: "map_of (tag_attrs (li (py ''B-9000'') (py ''g''))) (py ''data-label'') = Some (py ''B-9000'')"
    by (simp_all add: li_def)
  have s1: "py ''Gent'' = strip ?R (py '' Gent '')"
    and s2: "py ''Huis'' = strip ?R (py ''Huis'')"
    and s3: "py ''B-9000'' = strip ?R (py ''B-9000'')"
    by (simp_all add: ascii_defs)
  have low: "py_lower ?R (py ''Gent'') = py ''gent''" "py_lower ?R (py ''Huis'') = py ''huis''"
    by (simp_all add: ascii_defs)
  have dig: "\<not> (\<exists>c \<in> set (py ''Gent''). py_isdigit ?R c)"
    by (simp add: ascii_defs)
  have keep: "\<not> (py ''Gent'' = [] \<or>
       py_lower ?R (py ''Gent'') \<in> {py ''appartement'', py ''huis'', py ''grond'', py ''contact'',
           py ''droomwoning'', py ''nieuwbouw'', py ''verkocht'', py ''verkopen'',
           py ''te-koop'', py ''aanbod'', py ''rekrutering''} \<or>
       8364 \<in> set (py ''Gent'') \<or> (\<exists>c \<in> set (py ''Gent''). py_isdigit ?R c))"
    using dig unfolding low by (simp add: py_def)
  have drop: "py_lower ?R (py ''Huis'') \<in> {py ''appartement'', py ''huis'', py ''grond'',
           py ''contact'', py ''droomwoning'', py ''nieuwbouw'', py ''verkocht'', py ''verkopen'',
           py ''te-koop'', py ''aanbod'', py ''rekrutering''}"
    unfolding low by simp
  have sub: "\<forall>c. latin1_isdecimal c \<longrightarrow> py_isdigit ?R c"
    by (simp add: ascii_runtime_def ascii_isdigit_def latin1_isdecimal_def)
  have has: "list_ex latin1_isdecimal (py ''B-9000'')"
    by (simp add: latin1_isdecimal_def py_def)
  obtain l1 where r1: "parse_locations ?R listing_html = Inr l1"
    and m1: "py ''Gent'' \<in> set l1"
    using parse_locations_filter [OF parsed el1 at1 s1] keep by blast
  obtain l2 where r2: "parse_locations ?R listing_html = Inr l2"
    and m2: "py ''Huis'' \<notin> set l2"
    using parse_locations_filter [OF parsed el2 at2 s2] drop by blast
  obtain l3 where r3: "parse_locations ?R listing_html = Inr l3"
    and m3: "py ''B-9000'' \<notin> set l3"
    using parse_locations_filter [OF parsed el3 at3 s3] sub has by blast
  from r1 r2 r3 have "l2 = l1" "l3 = l1" by simp_all
  with r1 m1 m2 m3
  have "\<exists>locs. parse_locations ?R listing_html = Inr locs \<and>
      py ''Gent'' \<in> set locs \<and> py ''Huis'' \<notin> set locs \<and> py ''B-9000'' \<notin> set locs"
    by blast
  with parsed el1 el2 el3 at1 at2 at3 s1 [symmetric] s2 [symmetric] s3 [symmetric] has
  show ?thesis by (intro conjI)
qed

lemma bs4_parse_latin1: "bs4_parse (latin1_runtime [(html, soup)]) html = Inr soup"
  by (simp add: latin1_runtime_def parser_table_def)

lemmas latin1_defs =
  latin1_runtime_def latin1_isdigit_def py_def data_label_def excluded_labels_def euro_def
  strip_def lstrip_ws_def get_def has_attr_def find_all_attr_def descendant_tags_def
  ascii_isspace_def ascii_lower_def

text \<open>
  The claim read with decimal digits only fails: the label \<open>Gent\<close> followed by the
  superscript two (178) is not empty, is not an excluded word, has no euro sign and no
  decimal digit, and is not in the output, since \<open>str.isdigit\<close> holds for 178.
\<close>

theorem parse_locations_filter_counterexample:
  "bs4_parse (latin1_runtime [(superscript_html, superscript_soup)]) superscript_html =
     Inr superscript_soup \<and>
   li (py ''Gent'' @ [178]) (py ''a'') \<in> set (descendant_tags superscript_soup) \<and>
   map_of (tag_attrs (li (py ''Gent'' @ [178]) (py ''a''))) (py ''data-label'') =
     Some (py ''Gent'' @ [178]) \<and>
   strip (latin1_runtime [(superscript_html, superscript_soup)]) (py ''Gent'' @ [178]) =
     py ''Gent'' @ [178] \<and>
   py ''Gent'' @ [178] \<noteq> [] \<and>
   py_lower (latin1_runtime [(superscript_html, superscript_soup)]) (py ''Gent'' @ [178])
     \<notin> {py ''appartement'', py ''huis'', py ''grond'', py ''contact'',
        py ''droomwoning'', py ''nieuwbouw'', py ''verkocht'', py ''verkopen'',
        py ''te-koop'', py ''aanbod'', py ''rekrutering''} \<and>
   8364 \<notin> set (py ''Gent'' @ [178]) \<and>
   \<not> list_ex latin1_isdecimal (py ''Gent'' @ [178]) \<and>
   list_ex (py_isdigit (latin1_runtime [(superscript_html, superscript_soup)]))
     (py ''Gent'' @ [178]) \<and>
   parse_locations (latin1_runtime [(superscript_html, superscript_soup)]) superscript_html =
     Inr []"
proof -
  let ?R = "latin1_runtime [(superscript_html, superscript_soup)]"
  have c1: "bs4_parse ?R superscript_html = Inr superscript_soup"
    by (rule bs4_parse_latin1)
  have c2: "li (py ''Gent'' @ [178]) (py ''a'') \<in> set (descendant_tags superscript_soup)"
    by (simp add: descendant_tags_def superscript_soup_def li_def)
  have c3: "map_of (tag_attrs (li (py ''Gent'' @ [178]) (py ''a''))) (py ''data-label'') =
     Some (py ''Gent'' @ [178])"
    by (simp add: li_def)
  have c4: "strip ?R (py ''Gent'' @ [178]) = py ''Gent'' @ [178]"
    by (simp add: latin1_defs)
  have c5: "py ''Gent'' @ [178] \<noteq> []"
    by simp
  have c6: "py_lower ?R (py ''Gent'' @ [178])
     \<notin> {py ''appartement'', py ''huis'', py ''grond'', py ''contact'',
        py ''droomwoning'', py ''nieuwbouw'', py ''verkocht'', py ''verkopen'',
        py ''te-koop'', py ''aanbod'', py ''rekrutering''}"
    by (simp add: latin1_defs)
  have c7: "8364 \<notin> set (py ''Gent'' @ [178])"
    by (simp add: py_def)
  have c8: "\<not> list_ex latin1_isdecimal (py ''Gent'' @ [178])"
    by (simp add: latin1_isdecimal_def py_def)
  have c9: "list_ex (py_isdigit ?R) (py ''Gent'' @ [178])"
    by (simp add: latin1_defs)
  have c10: "parse_locations ?R superscript_html = Inr []"
    unfolding parse_locations_sort_remdups [OF bs4_parse_latin1]
    by (simp add: latin1_defs superscript_soup_def li_def)
  from c1 c2 c3 c4 c5 c6 c7 c8 c9 c10 show ?thesis
    by (intro conjI)
qed

text \<open>
  Claim C8. If the parser gives the empty tree for the empty markup, \<open>parse_locations\<close>
  returns the empty list for it; and for any markup whose tree has no tag with the
  attribute \<open>data-label\<close> it returns the empty list. In both cases it returns, and does
  not raise.
\<close>

theorem parse_locations_no_labels:
  "(bs4_parse R [] = Inr [] \<longrightarrow> parse_locations R [] = Inr []) \<and>
   (bs4_parse R html = Inr soup \<and>
    (\<forall>el \<in> set (descendant_tags soup). map_of (tag_attrs el) (py ''data-label'') = None) \<longrightarrow>
      parse_locations R html = Inr [])"
proof (intro conjI impI)
  assume "bs4_parse R [] = Inr []"
  then show "parse_locations R [] = Inr []"
    by (simp add: parse_locations_def find_all_attr_def descendant_tags_def)
next
  assume a: "bs4_parse R html = Inr soup \<and>
    (\<forall>el \<in> set (descendant_tags soup). map_of (tag_attrs el) (py ''data-label'') = None)"
  then have "find_all_attr data_label soup = []"
    by (simp add: find_all_attr_def has_attr_def data_label_def filter_empty_conv)
  with a show "parse_locations R html = Inr []"
    by (simp add: parse_locations_def)
qed

theorem parse_locations_no_labels_witness:
  "bs4_parse (ascii_runtime [([], [])]) [] = Inr [] \<and>
   parse_locations (ascii_runtime [([], [])]) [] = Inr [] \<and>
   bs4_parse (ascii_runtime [(plain_html, plain_soup)]) plain_html = Inr plain_soup \<and>
   list_all (\<lambda>el. map_of (tag_attrs el) (py ''data-label'') = None) (descendant_tags plain_soup) \<and>
   parse_locations (ascii_runtime [(plain_html, plain_soup)]) plain_html = Inr []"
proof -
  have e: "bs4_parse (ascii_runtime [([], [])]) [] = Inr []"
    by (rule bs4_parse_single)
  have p: "bs4_parse (ascii_runtime [(plain_html, plain_soup)]) plain_html = Inr plain_soup"
    by (rule bs4_parse_single)
  have n: "list_all (\<lambda>el. map_of (tag_attrs el) (py ''data-label'') = None)
             (descendant_tags plain_soup)"
    by (simp add: descendant_tags_def plain_soup_def)
  then have "\<forall>el \<in> set (descendant_tags plain_soup).
      map_of (tag_attrs el) (py ''data-label'') = None"
    by (simp only: list_all_iff)
  with e p n
    parse_locations_no_labels [of "ascii_runtime [([], [])]" plain_html plain_soup]
    parse_locations_no_labels [of "ascii_runtime [(plain_html, plain_soup)]" plain_html plain_soup]
  show ?thesis by blast
qed

text \<open>
  Claim C10. Every string in the output of \<open>parse_locations\<close> is the trimmed value of the
  attribute \<open>data-label\<close> of some tag of the page, unchanged. The output is the same
  whatever the Unicode normalisation and the table of combining marks are, the two things
  \<open>normalize_text\<close> is built from. And whenever two tags of the page carry labels whose
  trimmed values differ and each pass the four tests, both values are entries of the
  output, at two positions: also when they have the same lower-case form or the same
  normalised form.
\<close>

theorem parse_locations_verbatim:
  assumes "bs4_parse R html = Inr soup"
  shows "\<exists>locs. parse_locations R html = Inr locs \<and>
     (\<forall>l \<in> set locs. \<exists>el \<in> set (descendant_tags soup). \<exists>v.
         map_of (tag_attrs el) (py ''data-label'') = Some v \<and> l = strip R v) \<and>
     (\<forall>f g. parse_locations (R\<lparr>nfd := f, is_Mn := g\<rparr>) html = Inr locs) \<and>
     (\<forall>el1 el2 v1 v2.
         el1 \<in> set (descendant_tags soup) \<and> el2 \<in> set (descendant_tags soup) \<and>
         map_of (tag_attrs el1) (py ''data-label'') = Some v1 \<and>
         map_of (tag_attrs el2) (py ''data-label'') = Some v2 \<and>
         strip R v1 \<noteq> strip R v2 \<and>
         strip R v1 \<noteq> [] \<and> py_lower R (strip R v1) \<notin> excluded_labels \<and>
         \<not> str_in euro (strip R v1) \<and> \<not> list_ex (py_isdigit R) (strip R v1) \<and>
         strip R v2 \<noteq> [] \<and> py_lower R (strip R v2) \<notin> excluded_labels \<and>
         \<not> str_in euro (strip R v2) \<and> \<not> list_ex (py_isdigit R) (strip R v2) \<longrightarrow>
         (\<exists>i j. i < length locs \<and> j < length locs \<and> i \<noteq> j \<and>
                locs ! i = strip R v1 \<and> locs ! j = strip R v2))"
proof -
  let ?S = "fold (add_location R) (find_all_attr data_label soup) {}"
  let ?locs = "sorted_list_of_set ?S"
  have ret: "parse_locations R html = Inr ?locs"
    by (rule parse_locations_Inr [OF assms])
  have mem: "set ?locs = ?S"
    by (rule set_parse_locations [OF assms ret])
  have src: "\<exists>el \<in> set (descendant_tags soup). \<exists>v.
         map_of (tag_attrs el) (py ''data-label'') = Some v \<and> l = strip R v"
    if "l \<in> set ?locs" for l
  proof -
    from that mem obtain el where el: "el \<in> set (find_all_attr data_label soup)"
      and l: "l = strip R (get el data_label [])"
      unfolding fold_add_location by blast
    from el have d: "el \<in> set (descendant_tags soup)"
      and "has_attr data_label el"
      by (simp_all add: find_all_attr_def)
    then obtain v where v: "map_of (tag_attrs el) data_label = Some v"
      by (auto simp: has_attr_def)
    with l have "l = strip R v" by (simp add: get_def)
    with d v show ?thesis by (auto simp: data_label_def)
  qed
  have indep: "parse_locations (R\<lparr>nfd := f, is_Mn := g\<rparr>) html = Inr ?locs" for f g
  proof -
    have "add_location (R\<lparr>nfd := f, is_Mn := g\<rparr>) = add_location R"
      by (intro ext) (simp add: add_location_def strip_def lstrip_ws_def)
    with assms show ?thesis
      by (simp add: parse_locations_def)
  qed
  have kept: "strip R v \<in> set ?locs"
    if "el \<in> set (descendant_tags soup)"
      and "map_of (tag_attrs el) (py ''data-label'') = Some v"
      and "strip R v \<noteq> []" and "py_lower R (strip R v) \<notin> excluded_labels"
      and "\<not> str_in euro (strip R v)" and "\<not> list_ex (py_isdigit R) (strip R v)"
    for el v
  proof -
    from that(1,2) have found: "el \<in> set (find_all_attr data_label soup)"
      by (simp add: find_all_attr_def has_attr_def data_label_def)
    from that(2) have lab: "strip R v = strip R (get el data_label [])"
      by (simp add: get_def data_label_def)
    have "strip R v \<in> ?S"
      unfolding fold_add_location using found lab that(3-6) by blast
    with mem show ?thesis by simp
  qed
  have two: "\<exists>i j. i < length ?locs \<and> j < length ?locs \<and> i \<noteq> j \<and>
        ?locs ! i = strip R v1 \<and> ?locs ! j = strip R v2"
    if "el1 \<in> set (descendant_tags soup) \<and> el2 \<in> set (descendant_tags soup) \<and>
         map_of (tag_attrs el1) (py ''data-label'') = Some v1 \<and>
         map_of (tag_attrs el2) (py ''data-label'') = Some v2 \<and>
         strip R v1 \<noteq> strip R v2 \<and>
         strip R v1 \<noteq> [] \<and> py_lower R (strip R v1) \<notin> excluded_labels \<and>
         \<not> str_in euro (strip R v1) \<and> \<not> list_ex (py_isdigit R) (strip R v1) \<and>
         strip R v2 \<noteq> [] \<and> py_lower R (strip R v2) \<notin> excluded_labels \<and>
         \<not> str_in euro (strip R v2) \<and> \<not> list_ex (py_isdigit R) (strip R v2)"
    for el1 el2 v1 v2
  proof -
    from that have "strip R v1 \<in> set ?locs"
      by (intro kept [of el1 v1]) simp_all
    then obtain i where i: "i < length ?locs" "?locs ! i = strip R v1"
      by (auto simp: in_set_conv_nth)
    from that have "strip R v2 \<in> set ?locs"
      by (intro kept [of el2 v2]) simp_all
    then obtain j where j: "j < length ?locs" "?locs ! j = strip R v2"
      by (auto simp: in_set_conv_nth)
    from that have "strip R v1 \<noteq> strip R v2" by simp
    with i j have "i \<noteq> j" by auto
    with i j show ?thesis by blast
  qed
  from ret src indep two show ?thesis by blast
qed

lemma listing_locations_latin1:
  "parse_locations (latin1_runtime [(listing_html, listing_soup)]) listing_html =
     Inr [py ''Aalst'', py ''Gent'', [71, 233, 110, 116], py ''gent'']"
  unfolding parse_locations_sort_remdups [OF bs4_parse_latin1]
  by (simp add: latin1_defs listing_soup_def li_def)

theorem parse_locations_verbatim_witness:
  "bs4_parse (latin1_runtime [(listing_html, listing_soup)]) listing_html = Inr listing_soup \<and>
   parse_locations (latin1_runtime [(listing_html, listing_soup)]) listing_html =
     Inr [py ''Aalst'', py ''Gent'', [71, 233, 110, 116], py ''gent''] \<and>
   parse_locations ((latin1_runtime [(listing_html, listing_soup)])
       \<lparr>nfd := (\<lambda>s. []), is_Mn := (\<lambda>c. True)\<rparr>) listing_html =
     Inr [py ''Aalst'', py ''Gent'', [71, 233, 110, 116], py ''gent''] \<and>
   (\<exists>el \<in> set (descendant_tags listing_soup). \<exists>v.
       map_of (tag_attrs el) (py ''data-label'') = Some v \<and>
       [71, 233, 110, 116] = strip (latin1_runtime [(listing_html, listing_soup)]) v) \<and>
   py_lower (latin1_runtime [(listing_html, listing_soup)]) (py ''Gent'') =
     py_lower (latin1_runtime [(listing_html, listing_soup)]) (py ''gent'') \<and>
   normalize_text (latin1_runtime [(listing_html, listing_soup)]) [71, 233, 110, 116] =
     normalize_text (latin1_runtime [(listing_html, listing_soup)]) (py ''Gent'') \<and>
   (\<exists>i j. i < 4 \<and> j < 4 \<and> i \<noteq> j \<and>
       [py ''Aalst'', py ''Gent'', [71, 233, 110, 116], py ''gent''] ! i = py ''Gent'' \<and>
       [py ''Aalst'', py ''Gent'', [71, 233, 110, 116], py ''gent''] ! j = py ''gent'') \<and>
   (\<exists>i j. i < 4 \<and> j < 4 \<and> i \<noteq> j \<and>
       [py ''Aalst'', py ''Gent'', [71, 233, 110, 116], py ''gent''] ! i = py ''Gent'' \<and>
       [py ''Aalst'', py ''Gent'', [71, 233, 110, 116], py ''gent''] ! j = [71, 233, 110, 116])"
proof -
  let ?R = "latin1_runtime [(listing_html, listing_soup)]"
  let ?out = "[py ''Aalst'', py ''Gent'', [71, 233, 110, 116], py ''gent'']"
  let ?tags = "set (descendant_tags listing_soup)"
  have parsed: "bs4_parse ?R listing_html = Inr listing_soup"
    by (rule bs4_parse_latin1)
  obtain locs where ret: "parse_locations ?R listing_html = Inr locs"
    and src: "\<forall>l \<in> set locs. \<exists>el \<in> ?tags. \<exists>v.
         map_of (tag_attrs el) (py ''data-label'') = Some v \<and> l = strip ?R v"
    and indep: "\<forall>f g. parse_locations (?R\<lparr>nfd := f, is_Mn := g\<rparr>) listing_html = Inr locs"
    and two: "\<forall>el1 el2 v1 v2.
         el1 \<in> ?tags \<and> el2 \<in> ?tags \<and>
         map_of (tag_attrs el1) (py ''data-label'') = Some v1 \<and>
         map_of (tag_attrs el2) (py ''data-label'') = Some v2 \<and>
         strip ?R v1 \<noteq> strip ?R v2 \<and>
         strip ?R v1 \<noteq> [] \<and> py_lower ?R (strip ?R v1) \<notin> excluded_labels \<and>
         \<not> str_in euro (strip ?R v1) \<and> \<not> list_ex (py_isdigit ?R) (strip ?R v1) \<and>
         strip ?R v2 \<noteq> [] \<and> py_lower ?R (strip ?R v2) \<notin> excluded_labels \<and>
         \<not> str_in euro (strip ?R v2) \<and> \<not> list_ex (py_isdigit ?R) (strip ?R v2) \<longrightarrow>
         (\<exists>i j. i < length locs \<and> j < length locs \<and> i \<noteq> j \<and>
                locs ! i = strip ?R v1 \<and> locs ! j = strip ?R v2)"
    using parse_locations_verbatim [OF parsed] by blast
  from ret have locs: "locs = ?out"
    by (simp add: listing_locations_latin1)
  have len: "length ?out = 4" by simp
  have "[71, 233, 110, 116] \<in> set ?out" by simp
  with src have c1: "\<exists>el \<in> ?tags. \<exists>v.
       map_of (tag_attrs el) (py ''data-label'') = Some v \<and> [71, 233, 110, 116] = strip ?R v"
    unfolding locs by blast
  have c3: "parse_locations (?R\<lparr>nfd := (\<lambda>s. []), is_Mn := (\<lambda>c. True)\<rparr>) listing_html = Inr ?out"
    by (rule indep [unfolded locs, rule_format])
  have low: "py_lower ?R (py ''Gent'') = py_lower ?R (py ''gent'')"
    by (simp add: latin1_defs)
  have norm: "normalize_text ?R [71, 233, 110, 116] = normalize_text ?R (py ''Gent'')"
    by (simp add: normalize_text_def latin1_runtime_def latin1_nfd_def py_def)
  have e1: "li (py '' Gent '') (py ''a'') \<in> ?tags"
    and e2: "li (py ''gent'') (py ''d'') \<in> ?tags"
    and e3: "li [71, 233, 110, 116] (py ''f'') \<in> ?tags"
    unfolding listing_tags by simp_all
  have a1: "map_of (tag_attrs (li (py '' Gent '') (py ''a''))) (py ''data-label'') = Some (py '' Gent '')"
    and a2: "map_of (tag_attrs (li (py ''gent'') (py ''d''))) (py ''data-label'') = Some (py ''gent'')"
    and a3: "map_of (tag_attrs (li [71, 233, 110, 116] (py ''f''))) (py ''data-label'') =
      Some [71, 233, 110, 116]"
    by (simp_all add: li_def)
  have s1: "strip ?R (py '' Gent '') = py ''Gent''"
    and s2: "strip ?R (py ''gent'') = py ''gent''"
    and s3: "strip ?R [71, 233, 110, 116] = [71, 233, 110, 116]"
    by (simp_all add: latin1_defs)
  have k1: "py ''Gent'' \<noteq> [] \<and> py_lower ?R (py ''Gent'') \<notin> excluded_labels \<and>
      \<not> str_in euro (py ''Gent'') \<and> \<not> list_ex (py_isdigit ?R) (py ''Gent'')"
    by (simp add: latin1_defs)
  have k2: "py ''gent'' \<noteq> [] \<and> py_lower ?R (py ''gent'') \<notin> excluded_labels \<and>
      \<not> str_in euro (py ''gent'') \<and> \<not> list_ex (py_isdigit ?R) (py ''gent'')"
    by (simp add: latin1_defs)
  have k3: "[71, 233, 110, 116] \<noteq> [] \<and> py_lower ?R [71, 233, 110, 116] \<notin> excluded_labels \<and>
      \<not> str_in euro [71, 233, 110, 116] \<and> \<not> list_ex (py_isdigit ?R) [71, 233, 110, 116]"
    by (simp add: latin1_defs)
  have d12: "py ''Gent'' \<noteq> py ''gent''" and d13: "py ''Gent'' \<noteq> [71, 233, 110, 116]"
    by (simp_all add: py_def)
  have "\<exists>i j. i < length ?out \<and> j < length ?out \<and> i \<noteq> j \<and>
      ?out ! i = strip ?R (py '' Gent '') \<and> ?out ! j = strip ?R (py ''gent'')"
    by (rule two [unfolded locs, rule_format,
          of "li (py '' Gent '') (py ''a'')" "li (py ''gent'') (py ''d'')"])
       (use e1 e2 a1 a2 d12 k1 k2 in \<open>simp only: s1 s2 simp_thms\<close>)
  then have c4: "\<exists>i j. i < 4 \<and> j < 4 \<and> i \<noteq> j \<and> ?out ! i = py ''Gent'' \<and> ?out ! j = py ''gent''"
    by (simp only: len s1 s2)
  have "\<exists>i j. i < length ?out \<and> j < length ?out \<and> i \<noteq> j \<and>
      ?out ! i = strip ?R (py '' Gent '') \<and> ?out ! j = strip ?R [71, 233, 110, 116]"
    by (rule two [unfolded locs, rule_format,
          of "li (py '' Gent '') (py ''a'')" "li [71, 233, 110, 116] (py ''f'')"])
       (use e1 e3 a1 a3 d13 k1 k3 in \<open>simp only: s1 s3 simp_thms\<close>)
  then have c5: "\<exists>i j. i < 4 \<and> j < 4 \<and> i \<noteq> j \<and> ?out ! i = py ''Gent'' \<and>
      ?out ! j = [71, 233, 110, 116]"
    by (simp only: len s1 s3)
  show ?thesis
    using parsed ret c3 c1 low norm c4 c5 unfolding locs by (intro conjI) assumption+
qed
section \<open>The scraper instance\<close>

lemma status_distinct: "py ''error'' \<noteq> py ''success''"
  by (simp add: py_def)

lemma scrape_fetch_error:
  "fetch_page g = Inl e \<Longrightarrow>
   scrape R s g =
     (Inr \<lparr>env_locations = [], env_count = 0, env_status = py ''error'',
           env_error = Some (exn_str R e)\<rparr>, s)"
  by (simp add: scrape_def scrape_try_def)

lemma scrape_parse_error:
  "fetch_page g = Inr html \<Longrightarrow> parse_locations R html = Inl e \<Longrightarrow>
   scrape R s g =
     (Inr \<lparr>env_locations = [], env_count = 0, env_status = py ''error'',
           env_error = Some (exn_str R e)\<rparr>, s)"
  by (simp add: scrape_def scrape_try_def)

lemma scrape_success:
  "fetch_page g = Inr html \<Longrightarrow> parse_locations R html = Inr locs \<Longrightarrow>
   scrape R s g =
     (Inr \<lparr>env_locations = locs, env_count = length locs, env_status = py ''success'',
           env_error = None\<rparr>, s\<lparr>locations := locs\<rparr>)"
  by (simp add: scrape_def scrape_try_def)

text \<open>The three ways a call of \<open>scrape\<close> can go.\<close>

lemma scrape_cases:
  obtains (fetch) e where "fetch_page g = Inl e"
  | (parse) html e where "fetch_page g = Inr html" "parse_locations R html = Inl e"
  | (success) html locs where "fetch_page g = Inr html" "parse_locations R html = Inr locs"
proof (cases "fetch_page g")
  case (Inl e)
  then show ?thesis by (rule fetch)
next
  case (Inr html)
  then show ?thesis
    by (cases "parse_locations R html") (auto intro: parse success)
qed

lemma scrape_error_keeps:
  assumes "scrape R s g = (Inr env, s')" and "env_status env = py ''error''"
  shows "s' = s"
proof (cases g rule: scrape_cases [where R = R])
  case (fetch e)
  with assms(1) show ?thesis by (simp add: scrape_fetch_error)
next
  case (parse html e)
  with assms(1) show ?thesis by (simp add: scrape_parse_error)
next
  case (success html locs)
  with assms show ?thesis
    using status_distinct by (auto simp: scrape_success)
qed

lemma scrape_not_error_stores:
  assumes "scrape R s g = (Inr env, s')" and "env_status env \<noteq> py ''error''"
  shows "env_status env = py ''success'' \<and> locations s' = env_locations env"
proof (cases g rule: scrape_cases [where R = R])
  case (fetch e)
  with assms show ?thesis by (auto simp: scrape_fetch_error)
next
  case (parse html e)
  with assms show ?thesis by (auto simp: scrape_parse_error)
next
  case (success html locs)
  with assms(1) show ?thesis by (auto simp: scrape_success)
qed

lemma scrape_returns: "\<exists>env s'. scrape R s g = (Inr env, s')"
  by (cases g rule: scrape_cases [where R = R])
     (simp_all add: scrape_fetch_error scrape_parse_error scrape_success)

lemma scrape_all_failures:
  assumes "\<forall>g \<in> set later. \<forall>s. \<exists>env. fst (scrape R s g) = Inr env \<and> env_status env = py ''error''"
  shows "scrape_all R self later = self"
  using assms
proof (induction later arbitrary: self)
  case Nil
  show ?case by (simp add: scrape_all_def)
next
  case (Cons g later)
  from Cons.prems have "\<forall>s. \<exists>env. fst (scrape R s g) = Inr env \<and> env_status env = py ''error''"
    by simp
  then obtain env where "fst (scrape R self g) = Inr env"
    and "env_status env = py ''error''"
    by blast
  then have "snd (scrape R self g) = self"
    using scrape_error_keeps [of R self g env "snd (scrape R self g)"]
    by (metis prod.collapse)
  moreover have "scrape_all R self later = self"
    using Cons.IH Cons.prems by simp
  ultimately show ?case
    by (simp add: scrape_all_def)
qed

lemma scrape_all_append:
  "scrape_all R self (xs @ ys) = scrape_all R (scrape_all R self xs) ys"
  by (simp add: scrape_all_def)

text \<open>
  Claim C4. If \<open>fetch_page\<close> raises, because \<open>requests.get\<close> raised or because the status
  of the reply is an error, \<open>scrape\<close> returns: its result is the dictionary with the
  status \<open>error\<close>, no locations, the count 0 and the text of the exception, and the
  instance is as it was. No exception leaves \<open>scrape\<close>.
\<close>

theorem scrape_network_error:
  assumes "fetch_page requests_get = Inl e"
  shows "scrape R self requests_get =
           (Inr \<lparr>env_locations = [], env_count = 0, env_status = py ''error'',
                 env_error = Some (exn_str R e)\<rparr>, self)"
  using assms by (rule scrape_fetch_error)

theorem scrape_network_error_witness:
  "fetch_page timed_out = Inl (RequestException (py ''Read timed out'')) \<and>
   scrape (ascii_runtime []) (init_scraper 10) timed_out =
     (Inr \<lparr>env_locations = [], env_count = 0, env_status = py ''error'',
           env_error = Some (py ''Read timed out'')\<rparr>, init_scraper 10) \<and>
   fetch_page unavailable =
     Inl (RequestException
       (py ''503 Server Error: Service Unavailable for url: https://irres.be/te-koop'')) \<and>
   scrape (ascii_runtime []) (init_scraper 10) unavailable =
     (Inr \<lparr>env_locations = [], env_count = 0, env_status = py ''error'',
           env_error = Some
             (py ''503 Server Error: Service Unavailable for url: https://irres.be/te-koop'')\<rparr>,
      init_scraper 10)"
proof -
  have a: "fetch_page timed_out = Inl (RequestException (py ''Read timed out''))"
    by (simp add: fetch_page_def fetch_try_def timed_out_def)
  have d: "decimal 503 = py ''503''"
    by (simp add: decimal.simps py_def)
  have b: "fetch_page unavailable =
     Inl (RequestException
       (py ''503 Server Error: Service Unavailable for url: https://irres.be/te-koop''))"
    by (simp add: fetch_page_def fetch_try_def raise_for_status_def unavailable_def d)
       (simp add: py_def)
  have m: "exn_str (ascii_runtime []) (RequestException msg) = msg" for msg
    by (simp add: ascii_runtime_def)
  from scrape_network_error [OF a, of "ascii_runtime []" "init_scraper 10"]
    scrape_network_error [OF b, of "ascii_runtime []" "init_scraper 10"] a b
  show ?thesis
    by (simp only: m)
qed

text \<open>
  Claim C9. A call of \<open>scrape\<close> that returns the error dictionary leaves the stored list
  as it was; any other call returns the success dictionary and stores its list. So after
  a successful call followed by any number of failing calls, \<open>get_locations\<close> still gives
  the list of the successful one, and on an instance that has only seen failing calls it
  gives the empty list.
\<close>

theorem scrape_failure_keeps_locations:
  "(\<forall>env self'. scrape R self g = (Inr env, self') \<and> env_status env = py ''error'' \<longrightarrow>
       get_locations self' = get_locations self) \<and>
   (\<forall>env self'. scrape R self g = (Inr env, self') \<and> env_status env \<noteq> py ''error'' \<longrightarrow>
       env_status env = py ''success'' \<and> get_locations self' = env_locations env) \<and>
   ((\<forall>g' \<in> set later. \<forall>s. \<exists>env. fst (scrape R s g') = Inr env \<and> env_status env = py ''error'') \<longrightarrow>
       get_locations (scrape_all R (init_scraper t) later) = [] \<and>
       (\<forall>env self'. scrape R self g = (Inr env, self') \<and> env_status env \<noteq> py ''error'' \<longrightarrow>
           get_locations (scrape_all R self (g # later)) = env_locations env))"
proof (intro conjI allI impI)
  fix env self'
  assume "scrape R self g = (Inr env, self') \<and> env_status env = py ''error''"
  then show "get_locations self' = get_locations self"
    using scrape_error_keeps by blast
next
  fix env self'
  assume a: "scrape R self g = (Inr env, self') \<and> env_status env \<noteq> py ''error''"
  then show "env_status env = py ''success''"
    using scrape_not_error_stores by blast
  from a show "get_locations self' = env_locations env"
    using scrape_not_error_stores unfolding get_locations_def by blast
next
  assume "\<forall>g' \<in> set later. \<forall>s. \<exists>env. fst (scrape R s g') = Inr env \<and> env_status env = py ''error''"
  then have "scrape_all R (init_scraper t) later = init_scraper t"
    by (rule scrape_all_failures)
  then show "get_locations (scrape_all R (init_scraper t) later) = []"
    by (simp add: get_locations_def init_scraper_def)
next
  fix env self'
  assume fails: "\<forall>g' \<in> set later. \<forall>s. \<exists>env. fst (scrape R s g') = Inr env \<and> env_status env = py ''error''"
    and a: "scrape R self g = (Inr env, self') \<and> env_status env \<noteq> py ''error''"
  have "scrape_all R self (g # later) = scrape_all R self' later"
    using a by (simp add: scrape_all_def)
  also have "\<dots> = self'"
    using fails by (rule scrape_all_failures)
  finally show "get_locations (scrape_all R self (g # later)) = env_locations env"
    using a scrape_not_error_stores unfolding get_locations_def by metis
qed

theorem scrape_failure_keeps_locations_witness:
  "scrape (ascii_runtime [(listing_html, listing_soup)]) (init_scraper 10) (ok_reply listing_html) =
     (Inr \<lparr>env_locations = [py ''Aalst'', py ''Gent'', [71, 233, 110, 116], py ''gent''],
           env_count = 4, env_status = py ''success'', env_error = None\<rparr>,
      \<lparr>timeout = 10,
       locations = [py ''Aalst'', py ''Gent'', [71, 233, 110, 116], py ''gent'']\<rparr>) \<and>
   scrape (ascii_runtime [(listing_html, listing_soup)])
       \<lparr>timeout = 10,
        locations = [py ''Aalst'', py ''Gent'', [71, 233, 110, 116], py ''gent'']\<rparr> timed_out =
     (Inr \<lparr>env_locations = [], env_count = 0, env_status = py ''error'',
           env_error = Some (py ''Read timed out'')\<rparr>,
      \<lparr>timeout = 10,
       locations = [py ''Aalst'', py ''Gent'', [71, 233, 110, 116], py ''gent'']\<rparr>) \<and>
   get_locations (scrape_all (ascii_runtime [(listing_html, listing_soup)]) (init_scraper 10)
       [ok_reply listing_html, timed_out]) =
     [py ''Aalst'', py ''Gent'', [71, 233, 110, 116], py ''gent''] \<and>
   get_locations (scrape_all (ascii_runtime [(listing_html, listing_soup)]) (init_scraper 10)
       [timed_out]) = []"
proof -
  let ?R = "ascii_runtime [(listing_html, listing_soup)]"
  let ?out = "[py ''Aalst'', py ''Gent'', [71, 233, 110, 116], py ''gent'']"
  let ?env = "\<lparr>env_locations = ?out, env_count = 4, env_status = py ''success'',
                env_error = None\<rparr>"
  let ?self' = "\<lparr>timeout = 10, locations = ?out\<rparr>"
  have fetched: "fetch_page (ok_reply listing_html) = Inr listing_html"
    by (simp add: fetch_page_def fetch_try_def ok_reply_def raise_for_status_def)
  have ok: "scrape ?R (init_scraper 10) (ok_reply listing_html) = (Inr ?env, ?self')"
    by (simp add: scrape_success [OF fetched listing_locations] init_scraper_def)
  have down: "fetch_page timed_out = Inl (RequestException (py ''Read timed out''))"
    by (simp add: fetch_page_def fetch_try_def timed_out_def)
  have err: "scrape ?R s timed_out =
     (Inr \<lparr>env_locations = [], env_count = 0, env_status = py ''error'',
           env_error = Some (py ''Read timed out'')\<rparr>, s)" for s
    by (simp add: scrape_fetch_error [OF down] ascii_runtime_def)
  have fails: "\<forall>g' \<in> set [timed_out]. \<forall>s. \<exists>env.
      fst (scrape ?R s g') = Inr env \<and> env_status env = py ''error''"
    by (simp add: err)
  have good: "scrape ?R (init_scraper 10) (ok_reply listing_html) = (Inr ?env, ?self') \<and>
      env_status ?env \<noteq> py ''error''"
    using ok status_distinct by simp
  note inst = scrape_failure_keeps_locations
    [of ?R "init_scraper 10" "ok_reply listing_html" "[timed_out]" 10]
  from inst fails have none: "get_locations (scrape_all ?R (init_scraper 10) [timed_out]) = []"
    by blast
  from inst fails good
  have kept: "get_locations (scrape_all ?R (init_scraper 10) [ok_reply listing_html, timed_out]) =
      env_locations ?env"
    by blast
  then have kept': "get_locations (scrape_all ?R (init_scraper 10) [ok_reply listing_html, timed_out]) =
      ?out"
    by simp
  from ok err [of ?self'] kept' none show ?thesis
    by (intro conjI)
qed

section \<open>The office images\<close>

lemma office_entry_Inl: "office_entry R p = Inl e \<Longrightarrow> e = IndexError"
  by (auto simp: office_entry_def Let_def split: option.splits if_splits list.splits)

lemma office_entry_key:
  "office_entry R p = Inr (Some (key, url)) \<Longrightarrow>
   key = IrresLatemImage \<or> key = IrresDestelbergenImage"
  by (auto simp: office_entry_def Let_def split: option.splits if_splits list.splits)

lemma office_loop_append:
  "office_loop R (ps @ qs) images =
     (case office_loop R ps images of Inl e \<Rightarrow> Inl e | Inr images' \<Rightarrow> office_loop R qs images')"
  by (induction ps arbitrary: images) (auto split: sum.splits option.splits)

lemma office_loop_Inl:
  "office_loop R ps images = Inl e \<Longrightarrow> \<exists>p \<in> set ps. office_entry R p = Inl e"
  by (induction ps arbitrary: images) (auto split: sum.splits option.splits)

lemma office_loop_keeps:
  "office_loop R ps images = Inr images' \<Longrightarrow>
   \<forall>p \<in> set ps. \<forall>u. office_entry R p \<noteq> Inr (Some (key, u)) \<Longrightarrow>
   images' key = images key"
proof (induction ps arbitrary: images)
  case Nil
  then show ?case by simp
next
  case (Cons p ps)
  show ?case
  proof (cases "office_entry R p")
    case (Inl e)
    with Cons.prems(1) show ?thesis by simp
  next
    case (Inr entry)
    show ?thesis
    proof (cases entry)
      case None
      with Inr Cons show ?thesis by simp
    next
      case (Some kv)
      obtain k v where kv: "kv = (k, v)" by (cases kv)
      with Some Inr Cons.prems(2) have neq: "k \<noteq> key" by auto
      from kv Some Inr Cons.prems(1)
      have run: "office_loop R ps (images(k \<mapsto> v)) = Inr images'" by simp
      from Cons.prems(2)
      have rest: "\<forall>p \<in> set ps. \<forall>u. office_entry R p \<noteq> Inr (Some (key, u))" by simp
      from Cons.IH [OF run rest] have "images' key = (images(k \<mapsto> v)) key" .
      with neq show ?thesis by simp
    qed
  qed
qed

lemma office_loop_dom:
  "office_loop R ps images = Inr images' \<Longrightarrow>
   dom images' \<subseteq> dom images \<union> {IrresLatemImage, IrresDestelbergenImage}"
proof (induction ps arbitrary: images)
  case Nil
  then show ?case by auto
next
  case (Cons p ps)
  show ?case
  proof (cases "office_entry R p")
    case (Inl e)
    with Cons.prems show ?thesis by simp
  next
    case (Inr entry)
    show ?thesis
    proof (cases entry)
      case None
      with Inr Cons show ?thesis by simp
    next
      case (Some kv)
      obtain k v where kv: "kv = (k, v)" by (cases kv)
      with Some Inr have "k = IrresLatemImage \<or> k = IrresDestelbergenImage"
        using office_entry_key by blast
      moreover from kv Some Inr Cons.prems
      have "office_loop R ps (images(k \<mapsto> v)) = Inr images'" by simp
      then have "dom images' \<subseteq> dom (images(k \<mapsto> v)) \<union> {IrresLatemImage, IrresDestelbergenImage}"
        by (rule Cons.IH)
      ultimately show ?thesis by auto
    qed
  qed
qed

lemma office_loop_last:
  assumes "office_loop R (earlier @ p # later) images = Inr images'"
    and "office_entry R p = Inr (Some (key, url))"
    and "\<forall>q \<in> set later. \<forall>u. office_entry R q \<noteq> Inr (Some (key, u))"
  shows "images' key = Some url"
proof -
  from assms(1) obtain mid where mid: "office_loop R earlier images = Inr mid"
    and rest: "office_loop R (p # later) mid = Inr images'"
    by (auto simp: office_loop_append split: sum.splits)
  from rest assms(2) have "office_loop R later (mid(key \<mapsto> url)) = Inr images'"
    by simp
  from office_loop_keeps [OF this assms(3)] show ?thesis by simp
qed

text \<open>
  The last match wins. Let the pictures of the page, in document order, contain a picture
  whose loop body assigns \<open>url\<close> to \<open>key\<close>, and let no later picture assign to \<open>key\<close>.
  If \<open>parse_office_images\<close> returns a mapping, the mapping holds \<open>url\<close> for \<open>key\<close>,
  whatever earlier pictures assigned, and its keys are among the two office keys. It
  fails to return only when some picture of the page raises \<open>IndexError\<close>.
\<close>

lemma office_images_last_wins:
  assumes "bs4_parse R html = Inr soup"
    and "find_all_name (py ''picture'') soup = earlier @ last_match # later"
    and "office_entry R last_match = Inr (Some (key, url))"
    and "\<forall>p \<in> set later. \<forall>u. office_entry R p \<noteq> Inr (Some (key, u))"
  shows "case parse_office_images R html of
           Inr images \<Rightarrow>
             images key = Some url \<and>
             dom images \<subseteq> {IrresLatemImage, IrresDestelbergenImage}
         | Inl e \<Rightarrow>
             e = IndexError \<and>
             (\<exists>p \<in> set (find_all_name (py ''picture'') soup). office_entry R p = Inl IndexError)"
proof (cases "parse_office_images R html")
  case (Inl e)
  with assms(1) have "office_loop R (find_all_name (py ''picture'') soup) Map.empty = Inl e"
    by (simp add: parse_office_images_def)
  then obtain p where "p \<in> set (find_all_name (py ''picture'') soup)"
    and "office_entry R p = Inl e"
    using office_loop_Inl by blast
  with Inl show ?thesis
    using office_entry_Inl by fastforce
next
  case (Inr images)
  with assms(1,2) have run: "office_loop R (earlier @ last_match # later) Map.empty = Inr images"
    by (simp add: parse_office_images_def)
  have "images key = Some url"
    by (rule office_loop_last [OF run assms(3,4)])
  moreover have "dom images \<subseteq> {IrresLatemImage, IrresDestelbergenImage}"
    using office_loop_dom [OF run] by simp
  ultimately show ?thesis
    using Inr by simp
qed

lemma contact_pictures:
  "find_all_name (py ''picture'') contact_soup =
     [picture [(py ''srcset'', py ''/img/7723383-a.jpg 800w''), (py ''alt'', py ''Office'')]] @
     picture [(py ''srcset'', py ''/img/destelbergen-b.jpg 800w''), (py ''alt'', py ''Office'')] # []"
  by (simp add: find_all_name_def descendant_tags_def contact_soup_def picture_def py_def)

lemmas office_defs =
  office_entry_def picture_def find_name_def find_all_name_def descendant_tags_def get_def
  split_def lstrip_slash_def site_origin_def ascii_runtime_def ascii_isspace_def ascii_lower_def
  py_def

lemma contact_first:
  "office_entry (ascii_runtime pages)
     (picture [(py ''srcset'', py ''/img/7723383-a.jpg 800w''), (py ''alt'', py ''Office'')]) =
   Inr (Some (IrresDestelbergenImage, py ''https://irres.be/img/7723383-a.jpg''))"
  by (simp add: office_defs)

lemma contact_second:
  "office_entry (ascii_runtime pages)
     (picture [(py ''srcset'', py ''/img/destelbergen-b.jpg 800w''), (py ''alt'', py ''Office'')]) =
   Inr (Some (IrresDestelbergenImage, py ''https://irres.be/img/destelbergen-b.jpg''))"
  by (simp add: office_defs)

lemma contact_last_wins:
  "bs4_parse (ascii_runtime [(contact_html, contact_soup)]) contact_html = Inr contact_soup \<and>
   find_all_name (py ''picture'') contact_soup =
     [picture [(py ''srcset'', py ''/img/7723383-a.jpg 800w''), (py ''alt'', py ''Office'')]] @
     picture [(py ''srcset'', py ''/img/destelbergen-b.jpg 800w''), (py ''alt'', py ''Office'')] # [] \<and>
   office_entry (ascii_runtime [(contact_html, contact_soup)])
     (picture [(py ''srcset'', py ''/img/7723383-a.jpg 800w''), (py ''alt'', py ''Office'')]) =
     Inr (Some (IrresDestelbergenImage, py ''https://irres.be/img/7723383-a.jpg'')) \<and>
   office_entry (ascii_runtime [(contact_html, contact_soup)])
     (picture [(py ''srcset'', py ''/img/destelbergen-b.jpg 800w''), (py ''alt'', py ''Office'')]) =
     Inr (Some (IrresDestelbergenImage, py ''https://irres.be/img/destelbergen-b.jpg'')) \<and>
   (\<exists>images. parse_office_images (ascii_runtime [(contact_html, contact_soup)]) contact_html =
        Inr images \<and>
      images IrresDestelbergenImage = Some (py ''https://irres.be/img/destelbergen-b.jpg'') \<and>
      dom images \<subseteq> {IrresLatemImage, IrresDestelbergenImage})"
proof -
  let ?R = "ascii_runtime [(contact_html, contact_soup)]"
  let ?p1 = "picture [(py ''srcset'', py ''/img/7723383-a.jpg 800w''), (py ''alt'', py ''Office'')]"
  let ?p2 = "picture [(py ''srcset'', py ''/img/destelbergen-b.jpg 800w''), (py ''alt'', py ''Office'')]"
  have parsed: "bs4_parse ?R contact_html = Inr contact_soup"
    by (rule bs4_parse_single)
  have none_later: "\<forall>p \<in> set []. \<forall>u. office_entry ?R p \<noteq> Inr (Some (IrresDestelbergenImage, u))"
    by simp
  have "parse_office_images ?R contact_html =
      office_loop ?R ([?p1] @ ?p2 # []) Map.empty"
    by (simp only: parse_office_images_def parsed sum.case contact_pictures)
  then have "\<exists>images. parse_office_images ?R contact_html = Inr images"
    by (simp add: contact_first contact_second)
  then obtain images where ret: "parse_office_images ?R contact_html = Inr images"
    by blast
  from office_images_last_wins [OF parsed contact_pictures contact_second none_later]
  have "images IrresDestelbergenImage = Some (py ''https://irres.be/img/destelbergen-b.jpg'') \<and>
      dom images \<subseteq> {IrresLatemImage, IrresDestelbergenImage}"
    by (simp only: ret sum.case)
  with ret have "\<exists>images. parse_office_images ?R contact_html = Inr images \<and>
      images IrresDestelbergenImage = Some (py ''https://irres.be/img/destelbergen-b.jpg'') \<and>
      dom images \<subseteq> {IrresLatemImage, IrresDestelbergenImage}"
    by blast
  with parsed contact_pictures contact_first [of "[(contact_html, contact_soup)]"]
    contact_second [of "[(contact_html, contact_soup)]"]
  show ?thesis by (intro conjI)
qed

text \<open>
  Claim C5, at an input where the code departs from it. A picture whose image has the
  \<open>srcset\<close> of one space passes the test \<open>if srcset\<close>; \<open>srcset.split()\<close> is empty and
  \<open>[0]\<close> raises \<open>IndexError\<close>, which leaves \<open>parse_office_images\<close>. A picture whose image
  has no \<open>srcset\<close> at all gives no entry and no failure.
\<close>

theorem parse_office_images_blank_srcset:
  "parse_office_images (ascii_runtime [(blank_srcset_html, blank_srcset_soup)]) blank_srcset_html =
     Inl IndexError \<and>
   (\<exists>images. parse_office_images (ascii_runtime [(no_srcset_html, no_srcset_soup)]) no_srcset_html =
        Inr images \<and> dom images = {})"
proof -
  have blank: "office_entry (ascii_runtime pages)
      (picture [(py ''srcset'', py '' ''), (py ''alt'', py ''Irres Latem'')]) = Inl IndexError"
    for pages
    by (simp add: office_defs)
  have missing: "office_entry (ascii_runtime pages)
      (picture [(py ''alt'', py ''Irres Latem'')]) = Inr None"
    for pages
    by (simp add: office_defs)
  have p1: "find_all_name (py ''picture'') blank_srcset_soup =
      [picture [(py ''srcset'', py '' ''), (py ''alt'', py ''Irres Latem'')]]"
    by (simp add: find_all_name_def descendant_tags_def blank_srcset_soup_def picture_def py_def)
  have p2: "find_all_name (py ''picture'') no_srcset_soup =
      [picture [(py ''alt'', py ''Irres Latem'')]]"
    by (simp add: find_all_name_def descendant_tags_def no_srcset_soup_def picture_def py_def)
  have a: "parse_office_images (ascii_runtime [(blank_srcset_html, blank_srcset_soup)])
      blank_srcset_html = Inl IndexError"
    by (simp add: parse_office_images_def bs4_parse_single p1 blank)
  have b: "parse_office_images (ascii_runtime [(no_srcset_html, no_srcset_soup)])
      no_srcset_html = Inr Map.empty"
    by (simp add: parse_office_images_def bs4_parse_single p2 missing)
  from a b show ?thesis by simp
qed

text \<open>
  Claim C6, at an input where the code departs from it. Two pictures of the office in
  Destelbergen are followed by a picture whose image has the \<open>srcset\<close> of one space.
  Both pictures match the key, the second being the last match; the third raises
  \<open>IndexError\<close> in \<open>srcset.split()[0]\<close>, which leaves \<open>parse_office_images\<close>, and no
  mapping is returned. Without the third picture the mapping holds the address of the
  second picture for the key.
\<close>

theorem parse_office_images_raises_after_match:
  "find_all_name (py ''picture'') trailing_blank_soup =
     [picture [(py ''srcset'', py ''/img/7723383-a.jpg 800w''), (py ''alt'', py ''Office'')],
      picture [(py ''srcset'', py ''/img/destelbergen-b.jpg 800w''), (py ''alt'', py ''Office'')],
      picture [(py ''srcset'', py '' ''), (py ''alt'', py ''Logo'')]] \<and>
   office_entry (ascii_runtime [(trailing_blank_html, trailing_blank_soup)])
     (picture [(py ''srcset'', py ''/img/7723383-a.jpg 800w''), (py ''alt'', py ''Office'')]) =
     Inr (Some (IrresDestelbergenImage, py ''https://irres.be/img/7723383-a.jpg'')) \<and>
   office_entry (ascii_runtime [(trailing_blank_html, trailing_blank_soup)])
     (picture [(py ''srcset'', py ''/img/destelbergen-b.jpg 800w''), (py ''alt'', py ''Office'')]) =
     Inr (Some (IrresDestelbergenImage, py ''https://irres.be/img/destelbergen-b.jpg'')) \<and>
   office_entry (ascii_runtime [(trailing_blank_html, trailing_blank_soup)])
     (picture [(py ''srcset'', py '' ''), (py ''alt'', py ''Logo'')]) = Inl IndexError \<and>
   parse_office_images (ascii_runtime [(trailing_blank_html, trailing_blank_soup)])
     trailing_blank_html = Inl IndexError \<and>
   (\<exists>images. parse_office_images (ascii_runtime [(contact_html, contact_soup)]) contact_html =
        Inr images \<and>
      images IrresDestelbergenImage = Some (py ''https://irres.be/img/destelbergen-b.jpg'') \<and>
      dom images \<subseteq> {IrresLatemImage, IrresDestelbergenImage})"
proof -
  let ?R = "ascii_runtime [(trailing_blank_html, trailing_blank_soup)]"
  have pics: "find_all_name (py ''picture'') trailing_blank_soup =
     [picture [(py ''srcset'', py ''/img/7723383-a.jpg 800w''), (py ''alt'', py ''Office'')],
      picture [(py ''srcset'', py ''/img/destelbergen-b.jpg 800w''), (py ''alt'', py ''Office'')],
      picture [(py ''srcset'', py '' ''), (py ''alt'', py ''Logo'')]]"
    by (simp add: find_all_name_def descendant_tags_def trailing_blank_soup_def picture_def py_def)
  have third: "office_entry ?R (picture [(py ''srcset'', py '' ''), (py ''alt'', py ''Logo'')]) =
      Inl IndexError"
    by (simp add: office_defs)
  have run: "parse_office_images ?R trailing_blank_html = Inl IndexError"
    by (simp add: parse_office_images_def bs4_parse_single pics contact_first contact_second third)
  from pics contact_first [of "[(trailing_blank_html, trailing_blank_soup)]"]
    contact_second [of "[(trailing_blank_html, trailing_blank_soup)]"] third run contact_last_wins
  show ?thesis
    by (intro conjI) simp_all
qed
section \<open>The routes\<close>

lemma get_irres_locations_returns: "\<exists>env. get_irres_locations R g = Inr env"
  using scrape_returns [of R "init_scraper 10" g]
  by (auto simp: get_irres_locations_def)

text \<open>The Flask route answers 200 whatever \<open>requests.get\<close> and the parser did.\<close>

lemma api_get_locations_status: "status_code (api_get_locations R g format now) = 200"
proof -
  obtain env where "get_irres_locations R g = Inr env"
    using get_irres_locations_returns by blast
  then show ?thesis
    by (simp add: api_get_locations_def api_get_locations_try_def format_csv_response_def Let_def)
qed

text \<open>The FastAPI route answers 200 or 500, never 404.\<close>

lemma get_location_labels_status:
  "status_code (fastapi_response (get_location_labels R g)) = 200 \<or>
   status_code (fastapi_response (get_location_labels R g)) = 500"
  by (cases "get_location_labels_try R g")
     (simp_all add: get_location_labels_def fastapi_response_def)

lemma get_location_labels_empty:
  assumes "app_get_locations R g = Inr []"
  shows "fastapi_response (get_location_labels R g) =
     \<lparr>status_code = 500, mimetype = py ''application/json'',
      payload = JsonDetail (exn_str R
        (HTTPException 404 (py ''No locations found or error fetching data'')))\<rparr>"
  using assms
  by (simp add: get_location_labels_def get_location_labels_try_def fastapi_response_def)

lemma fetch_page_timed_out: "fetch_page timed_out = Inl (RequestException (py ''Read timed out''))"
  by (simp add: fetch_page_def fetch_try_def timed_out_def)

lemma fetch_try_timed_out: "fetch_try timed_out = Inl (RequestException (py ''Read timed out''))"
  by (simp add: fetch_try_def timed_out_def)

lemma fetch_try_ok: "fetch_try (ok_reply html) = Inr html"
  by (simp add: fetch_try_def ok_reply_def raise_for_status_def)

lemma fetch_page_ok: "fetch_page (ok_reply html) = Inr html"
  by (simp add: fetch_page_def fetch_try_def ok_reply_def raise_for_status_def)

text \<open>
  Claim C3, at inputs where the code departs from it. When \<open>requests.get\<close> times out,
  and when the parser rejects the page, \<open>scrape\<close> has already turned the exception into
  its error dictionary; the route reads only the key \<open>locations\<close> of it and answers 200
  with the status \<open>success\<close> and an empty list, in JSON as in CSV.
\<close>

theorem api_get_locations_failure_is_200:
  "api_get_locations (ascii_runtime []) timed_out None now =
     \<lparr>status_code = 200, mimetype = py ''application/json'',
      payload = JsonLocations (py ''success'') now [] 0\<rparr> \<and>
   api_get_locations (ascii_runtime []) (ok_reply plain_html) None now =
     \<lparr>status_code = 200, mimetype = py ''application/json'',
      payload = JsonLocations (py ''success'') now [] 0\<rparr> \<and>
   api_get_locations (ascii_runtime []) timed_out (Some (py ''CSV'')) now =
     \<lparr>status_code = 200, mimetype = py ''text/csv'',
      payload = CsvText (py ''location'' @ [10])\<rparr>"
proof -
  have json: "py ''json'' \<noteq> py ''csv''"
    by (simp add: py_def)
  have low: "py_lower (ascii_runtime []) (py ''json'') = py ''json''"
    "py_lower (ascii_runtime []) (py ''CSV'') = py ''csv''"
    by (simp_all add: ascii_runtime_def ascii_lower_def py_def)
  have msg: "exn_str (ascii_runtime []) e = message_of e" for e
    by (simp add: ascii_runtime_def)
  have a: "get_irres_locations (ascii_runtime []) timed_out =
      Inr \<lparr>env_locations = [], env_count = 0, env_status = py ''error'',
           env_error = Some (py ''Read timed out'')\<rparr>"
    by (simp add: get_irres_locations_def scrape_fetch_error [OF fetch_page_timed_out] msg)
  have rejected: "parse_locations (ascii_runtime []) plain_html =
      Inl (OtherException (py ''unknown page''))"
    by (simp add: parse_locations_def ascii_runtime_def parser_table_def)
  have b: "get_irres_locations (ascii_runtime []) (ok_reply plain_html) =
      Inr \<lparr>env_locations = [], env_count = 0, env_status = py ''error'',
           env_error = Some (py ''unknown page'')\<rparr>"
    by (simp add: get_irres_locations_def scrape_parse_error [OF fetch_page_ok rejected] msg)
  have c1: "api_get_locations (ascii_runtime []) timed_out None now =
     \<lparr>status_code = 200, mimetype = py ''application/json'',
      payload = JsonLocations (py ''success'') now [] 0\<rparr>"
    by (simp add: api_get_locations_def api_get_locations_try_def a low json)
  have c2: "api_get_locations (ascii_runtime []) (ok_reply plain_html) None now =
     \<lparr>status_code = 200, mimetype = py ''application/json'',
      payload = JsonLocations (py ''success'') now [] 0\<rparr>"
    by (simp add: api_get_locations_def api_get_locations_try_def b low json)
  have c3: "api_get_locations (ascii_runtime []) timed_out (Some (py ''CSV'')) now =
     \<lparr>status_code = 200, mimetype = py ''text/csv'',
      payload = CsvText (py ''location'' @ [10])\<rparr>"
    by (simp add: api_get_locations_def api_get_locations_try_def a low format_csv_response_def)
  from c1 c2 c3 show ?thesis by (intro conjI)
qed

lemma filter_page_locations:
  "extract_locations (ascii_runtime [(filter_html, filter_soup)]) filter_html =
     Inr [\<lparr>loc_label = py ''Gent'', loc_value = py ''gent'', loc_display_text = py ''Gent''\<rparr>,
          \<lparr>loc_label = py ''Deinze'', loc_value = py ''deinze'',
           loc_display_text = py ''Deinze''\<rparr>]"
  unfolding extract_locations_def bs4_parse_single sum.case
  by (simp add: find_location_ul_def location_data_def get_text_strip_def filter_soup_def
      ascii_defs)

lemma plain_page_locations:
  "extract_locations (ascii_runtime [(plain_html, plain_soup)]) plain_html = Inr []"
  unfolding extract_locations_def bs4_parse_single sum.case
  by (simp add: find_location_ul_def plain_soup_def ascii_defs)

lemma filter_html_not_empty: "filter_html \<noteq> []"
  by (simp add: filter_html_def py_def)

lemma plain_html_not_empty: "plain_html \<noteq> []"
  by (simp add: plain_html_def py_def)

text \<open>
  Claim C7, at inputs where the code departs from it. With an empty result, because the
  request failed or because the page has no filter list, the route raises
  \<open>HTTPException(404)\<close> inside its own \<open>try\<close>; \<open>except Exception\<close> catches it and raises
  \<open>HTTPException(500)\<close>, whose detail is the text of the first. The answer is 500, and
  for no input 404. A page with a filter list is answered with 200 and its labels.
\<close>

theorem get_location_labels_empty_is_500:
  "fastapi_response (get_location_labels R timed_out) =
     \<lparr>status_code = 500, mimetype = py ''application/json'',
      payload = JsonDetail (exn_str R
        (HTTPException 404 (py ''No locations found or error fetching data'')))\<rparr> \<and>
   fastapi_response (get_location_labels (ascii_runtime [(plain_html, plain_soup)])
       (ok_reply plain_html)) =
     \<lparr>status_code = 500, mimetype = py ''application/json'',
      payload = JsonDetail (py ''404: No locations found or error fetching data'')\<rparr> \<and>
   fastapi_response (get_location_labels (ascii_runtime [(filter_html, filter_soup)])
       (ok_reply filter_html)) =
     \<lparr>status_code = 200, mimetype = py ''application/json'',
      payload = JsonLabels [py ''Gent'', py ''Deinze'']\<rparr> \<and>
   status_code (fastapi_response (get_location_labels R requests_get)) \<noteq> 404"
proof -
  have "app_get_locations R timed_out = Inr []"
    by (simp add: app_get_locations_def app_fetch_page_def fetch_try_timed_out)
  then have c1: "fastapi_response (get_location_labels R timed_out) =
     \<lparr>status_code = 500, mimetype = py ''application/json'',
      payload = JsonDetail (exn_str R
        (HTTPException 404 (py ''No locations found or error fetching data'')))\<rparr>"
    by (rule get_location_labels_empty)
  have "app_get_locations (ascii_runtime [(plain_html, plain_soup)]) (ok_reply plain_html) = Inr []"
    by (simp add: app_get_locations_def app_fetch_page_def fetch_try_ok plain_html_not_empty
        plain_page_locations)
  from get_location_labels_empty [OF this]
  have c2: "fastapi_response (get_location_labels (ascii_runtime [(plain_html, plain_soup)])
       (ok_reply plain_html)) =
     \<lparr>status_code = 500, mimetype = py ''application/json'',
      payload = JsonDetail (py ''404: No locations found or error fetching data'')\<rparr>"
    by (simp add: ascii_runtime_def decimal.simps py_def)
  have c3: "fastapi_response (get_location_labels (ascii_runtime [(filter_html, filter_soup)])
       (ok_reply filter_html)) =
     \<lparr>status_code = 200, mimetype = py ''application/json'',
      payload = JsonLabels [py ''Gent'', py ''Deinze'']\<rparr>"
    by (simp add: get_location_labels_def get_location_labels_try_def fastapi_response_def
        app_get_locations_def app_fetch_page_def fetch_try_ok filter_html_not_empty
        filter_page_locations)
  have c4: "status_code (fastapi_response (get_location_labels R requests_get)) \<noteq> 404"
    using get_location_labels_status [of R requests_get] by auto
  from c1 c2 c3 c4 show ?thesis by (intro conjI)
qed

end
